theory Spec2Isabelle
  imports Complex_Main
begin

section \<open>JavaScript values and strings\<close>

text \<open>
  A JavaScript string is modelled as a \<open>string\<close> whose characters are the UTF-16 code
  units below 256 (ASCII and the Latin-1 supplement: \<open>CHR 0xA0\<close> is the no-break
  space, \<open>CHR 0xE9\<close> is e-acute). Every string literal of the repository lies in
  this range. Finite numbers are modelled by their exact rational value; the
  rounding of IEEE doubles is not modelled.
\<close>

datatype jsnum = Fin rat | NaN | PosInf | NegInf

text \<open>
  A cell value as the workbook reader hands it over: a primitive, a native \<open>Date\<close>
  (its time value in milliseconds since the epoch, \<open>None\<close> for an invalid date),
  or a plain object given by its own properties in insertion order.
\<close>

datatype jsval =
    Null
  | Undefined
  | Str string
  | Num jsnum
  | Bool bool
  | DateV "int option"
  | Obj "(string \<times> jsval) list"

text \<open>The white space of \<open>\s\<close> and of \<open>trim()\<close>, among the code units below 256.\<close>

definition is_ws :: "char \<Rightarrow> bool" where
  "is_ws c = (c = CHR 0x09 \<or> c = CHR 0x0A \<or> c = CHR 0x0B \<or> c = CHR 0x0C \<or> c = CHR 0x0D
              \<or> c = CHR 0x20 \<or> c = CHR 0xA0)"

definition is_digit :: "char \<Rightarrow> bool" where
  "is_digit c = (48 \<le> (of_char c :: nat) \<and> (of_char c :: nat) \<le> 57)"

definition trim :: "string \<Rightarrow> string" where
  "trim s = rev (dropWhile is_ws (rev (dropWhile is_ws s)))"

text \<open>\<open>s.replace(/\s+/g, '')\<close>\<close>

definition remove_ws :: "string \<Rightarrow> string" where
  "remove_ws s = filter (\<lambda>c. \<not> is_ws c) s"

text \<open>Every no-break space becomes a space (the first \<open>replace\<close> of \<open>parseNumeric\<close>).\<close>

definition nbsp_to_space :: "string \<Rightarrow> string" where
  "nbsp_to_space s = map (\<lambda>c. if c = CHR 0xA0 then CHR 0x20 else c) s"

text \<open>\<open>s.replace(c, d)\<close> with a string pattern of one character: only the first
  occurrence is replaced.\<close>

fun replace_first :: "char \<Rightarrow> char \<Rightarrow> string \<Rightarrow> string" where
  "replace_first c d [] = []"
| "replace_first c d (x # xs) = (if x = c then d # xs else x # replace_first c d xs)"

text \<open>\<open>s.replace(/c/g, '')\<close> for a single character \<open>c\<close>.\<close>

definition remove_all :: "char \<Rightarrow> string \<Rightarrow> string" where
  "remove_all c s = filter (\<lambda>x. x \<noteq> c) s"

text \<open>\<open>s.lastIndexOf(c)\<close>: the index of the last occurrence, or \<open>-1\<close>.\<close>

fun lastIndexOf :: "char \<Rightarrow> string \<Rightarrow> int" where
  "lastIndexOf c [] = -1"
| "lastIndexOf c (x # xs) =
     (let r = lastIndexOf c xs in
      if r \<noteq> -1 then r + 1 else if x = c then 0 else -1)"

text \<open>
  The host functions the code calls and the repository does not contain: the number and
  date renderings of \<open>String(value)\<close> and the three constructors of the luxon
  \<open>DateTime\<close>. A \<open>DateTime\<close> is an object, valid or not; of a valid one the code
  reads \<open>toISODate()\<close> and \<open>toFormat('HH:mm:ss')\<close>.
\<close>

datatype DateTime = InvalidDateTime | ValidDateTime (isoDate: string) (hms: string)

record host =
  numberToString :: "rat \<Rightarrow> string"
  dateToString :: "int option \<Rightarrow> string"
  fromJSDate :: "int option \<Rightarrow> DateTime"
  fromFormat :: "string \<Rightarrow> string \<Rightarrow> bool \<Rightarrow> DateTime"
  fromISO :: "string \<Rightarrow> DateTime"

text \<open>\<open>String(value)\<close>\<close>

fun js_String :: "host \<Rightarrow> jsval \<Rightarrow> string" where
  "js_String h Null = ''null''"
| "js_String h Undefined = ''undefined''"
| "js_String h (Str s) = s"
| "js_String h (Num (Fin q)) = numberToString h q"
| "js_String h (Num NaN) = ''NaN''"
| "js_String h (Num PosInf) = ''Infinity''"
| "js_String h (Num NegInf) = ''-Infinity''"
| "js_String h (Bool b) = (if b then ''true'' else ''false'')"
| "js_String h (DateV t) = dateToString h t"
| "js_String h (Obj fs) = ''[object Object]''"

text \<open>The truth value of a value in a condition (\<open>if (v)\<close>, \<open>v ? a : b\<close>, \<open>!v\<close>).\<close>

fun truthy :: "jsval \<Rightarrow> bool" where
  "truthy Null = False"
| "truthy Undefined = False"
| "truthy (Str s) = (s \<noteq> [])"
| "truthy (Num (Fin q)) = (q \<noteq> 0)"
| "truthy (Num NaN) = False"
| "truthy (Num PosInf) = True"
| "truthy (Num NegInf) = True"
| "truthy (Bool b) = b"
| "truthy (DateV t) = True"
| "truthy (Obj fs) = True"

section \<open>Numeric normalization (parseNumeric)\<close>

definition digit_value :: "char \<Rightarrow> nat" where
  "digit_value c = (of_char c :: nat) - 48"

definition digits_value :: "string \<Rightarrow> nat" where
  "digits_value ds = foldl (\<lambda>acc c. 10 * acc + digit_value c) 0 ds"

text \<open>
  \<open>Number(s)\<close> on the strings \<open>parseNumeric\<close> passes to it: non-empty and made of
  digits, \<open>.\<close> and \<open>-\<close> only. Such a string is a number iff it is an optional leading
  \<open>-\<close> followed by digits with at most one \<open>.\<close> and at least one digit; anything else
  is \<open>NaN\<close>. A magnitude that rounds to no finite double gives an infinity.
\<close>

definition double_limit :: rat where
  "double_limit = 2 ^ 1024 - 2 ^ 970"

definition decimal_value :: "string \<Rightarrow> string \<Rightarrow> rat" where
  "decimal_value ip fp = of_nat (digits_value ip) + of_nat (digits_value fp) / 10 ^ length fp"

definition js_Number :: "string \<Rightarrow> jsnum" where
  "js_Number s =
     (let neg = (s \<noteq> [] \<and> hd s = CHR ''-'');
          body = (if neg then tl s else s);
          ip = takeWhile is_digit body;
          rest = dropWhile is_digit body;
          fp = (if rest = [] then [] else tl rest)
      in if (rest = [] \<or> hd rest = CHR ''.'') \<and> list_all is_digit fp \<and> (ip \<noteq> [] \<or> fp \<noteq> [])
         then (let v = decimal_value ip fp
               in if double_limit \<le> v then (if neg then NegInf else PosInf)
                  else Fin (if neg then - v else v))
         else NaN)"

definition numeric_char :: "char \<Rightarrow> bool" where
  "numeric_char c = (is_digit c \<or> c = CHR ''.'' \<or> c = CHR ''-'')"

text \<open>The separator handling of \<open>parseNumeric\<close>, from \<open>cleaned\<close> to \<open>normalized\<close>.\<close>

definition normalize_separators :: "string \<Rightarrow> string" where
  "normalize_separators cleaned =
     (let hasComma = (CHR '','' \<in> set cleaned);
          hasDot = (CHR ''.'' \<in> set cleaned)
      in if hasComma \<and> hasDot then
           (if lastIndexOf (CHR '','') cleaned > lastIndexOf (CHR ''.'') cleaned
            then replace_first (CHR '','') (CHR ''.'') (remove_all (CHR ''.'') cleaned)
            else remove_all (CHR '','') cleaned)
         else if hasComma then replace_first (CHR '','') (CHR ''.'') cleaned
         else cleaned)"

text \<open>The tail of \<open>parseNumeric\<close>: strip every other character, reject the four
  degenerate strings, convert.\<close>

definition parse_normalized :: "string \<Rightarrow> rat option" where
  "parse_normalized n0 =
     (let normalized = filter numeric_char n0
      in if normalized = [] \<or> normalized = ''-'' \<or> normalized = ''.'' \<or> normalized = ''-.''
         then None
         else (case js_Number normalized of Fin q \<Rightarrow> Some q | _ \<Rightarrow> None))"

definition parseNumeric :: "host \<Rightarrow> jsval \<Rightarrow> rat option" where
  "parseNumeric h v =
     (case v of
        Null \<Rightarrow> None
      | Undefined \<Rightarrow> None
      | Num (Fin q) \<Rightarrow> Some q
      | _ \<Rightarrow>
         (let text = trim (nbsp_to_space (js_String h v))
          in if text = [] then None
             else parse_normalized (normalize_separators (remove_ws text))))"

definition parseNumericZero :: "host \<Rightarrow> jsval \<Rightarrow> rat" where
  "parseNumericZero h v = (case parseNumeric h v of None \<Rightarrow> 0 | Some q \<Rightarrow> q)"

section \<open>Date normalization\<close>

text \<open>\<open>a || b\<close> on two \<open>DateTime\<close> objects. An object is truthy whether or not its
  \<open>isValid\<close> holds, so the right operand is never taken.\<close>

definition object_truthy :: "DateTime \<Rightarrow> bool" where
  "object_truthy dt = True"

definition logical_or :: "DateTime \<Rightarrow> DateTime \<Rightarrow> DateTime" where
  "logical_or a b = (if object_truthy a then a else b)"

definition isValid :: "DateTime \<Rightarrow> bool" where
  "isValid dt = (dt \<noteq> InvalidDateTime)"

text \<open>\<open>toISODate()\<close> and \<open>toFormat('HH:mm:ss')\<close>; luxon returns \<open>null\<close> from
  \<open>toISODate()\<close> of an invalid \<open>DateTime\<close>.\<close>

definition toISODate :: "DateTime \<Rightarrow> string option" where
  "toISODate dt = (case dt of InvalidDateTime \<Rightarrow> None | ValidDateTime d t \<Rightarrow> Some d)"

definition toFormat_HHmmss :: "DateTime \<Rightarrow> string option" where
  "toFormat_HHmmss dt = (case dt of InvalidDateTime \<Rightarrow> None | ValidDateTime d t \<Rightarrow> Some t)"

text \<open>\<open>new Date(t)\<close>: a time value beyond 8.64e15 ms gives an invalid date.\<close>

definition new_Date :: "int \<Rightarrow> int option" where
  "new_Date t = (if \<bar>t\<bar> \<le> 8640000000000000 then Some t else None)"

text \<open>\<open>Math.round\<close> rounds a half towards plus infinity.\<close>

definition Math_round :: "rat \<Rightarrow> int" where
  "Math_round x = \<lfloor>x + 1 / 2\<rfloor>"

text \<open>\<open>Date.UTC(1899, 11, 30)\<close>, in milliseconds.\<close>

definition excelEpoch :: int where
  "excelEpoch = - 2209161600000"

definition excelDateToJS :: "jsnum \<Rightarrow> int option" where
  "excelDateToJS v =
     (case v of
        Fin q \<Rightarrow>
          (let days = \<lfloor>q\<rfloor>;
               ms = days * 24 * 60 * 60 * 1000;
               fractional = q - of_int days;
               timeMs = Math_round (fractional * 24 * 60 * 60 * 1000)
           in new_Date (excelEpoch + ms + timeMs))
      | _ \<Rightarrow> None)"

text \<open>\<open>value > 30000\<close> on a number.\<close>

fun above_threshold :: "jsnum \<Rightarrow> bool" where
  "above_threshold (Fin q) = (q > 30000)"
| "above_threshold PosInf = True"
| "above_threshold _ = False"

definition normalizeDate_text :: "host \<Rightarrow> string \<Rightarrow> string option" where
  "normalizeDate_text h text =
     (let dt = logical_or (fromFormat h text ''dd/MM/yyyy'' True)
                          (fromFormat h text ''dd/MM/yy'' True)
      in if isValid dt then toISODate dt
         else (let parsed = fromISO h text
               in if isValid parsed then toISODate parsed else None))"

fun normalizeDate :: "host \<Rightarrow> jsval \<Rightarrow> string option" where
  "normalizeDate h Null = None"
| "normalizeDate h Undefined = None"
| "normalizeDate h (Str s) = (if s = [] then None else normalizeDate_text h (trim s))"
| "normalizeDate h (DateV (Some t)) = toISODate (fromJSDate h (Some t))"
| "normalizeDate h (Num n) =
     (if above_threshold n then toISODate (fromJSDate h (excelDateToJS n))
      else normalizeDate_text h (trim (js_String h (Num n))))"
| "normalizeDate h v = normalizeDate_text h (trim (js_String h v))"

text \<open>\<open>splitDateTime\<close> returns the pair \<open>{date, time}\<close>.\<close>

definition splitDateTime_text :: "host \<Rightarrow> string \<Rightarrow> DateTime" where
  "splitDateTime_text h text =
     (let dt = fromISO h text;
          dt = (if \<not> isValid dt then fromFormat h text ''dd/MM/yyyy HH:mm'' False else dt);
          dt = (if \<not> isValid dt then fromFormat h text ''dd/MM/yyyy HH:mm:ss'' False else dt)
      in dt)"

definition splitDateTime_dt :: "host \<Rightarrow> jsval \<Rightarrow> DateTime" where
  "splitDateTime_dt h v =
     (case v of
        DateV (Some t) \<Rightarrow> fromJSDate h (Some t)
      | Num n \<Rightarrow> (if above_threshold n then fromJSDate h (excelDateToJS n)
                 else splitDateTime_text h (trim (js_String h v)))
      | _ \<Rightarrow> splitDateTime_text h (trim (js_String h v)))"

definition splitDateTime :: "host \<Rightarrow> jsval \<Rightarrow> string option \<times> string option" where
  "splitDateTime h v =
     (if v = Null \<or> v = Undefined \<or> v = Str [] then (None, None)
      else (let dt = splitDateTime_dt h v
            in if \<not> isValid dt then (None, None) else (toISODate dt, toFormat_HHmmss dt)))"

section \<open>Grid access\<close>

text \<open>
  A worksheet as the code reads it: its \<open>rowCount\<close> and \<open>columnCount\<close> and the raw
  \<open>value\<close> of the cell at a row and a column (both counted from 1; a cell that was
  never written holds \<open>null\<close>). A workbook is the list of its sheets with their names.
\<close>

record worksheet =
  rowCount :: nat
  columnCount :: nat
  cell :: "nat \<Rightarrow> nat \<Rightarrow> jsval"

record workbook =
  worksheets :: "(string \<times> worksheet) list"

definition getWorksheet :: "workbook \<Rightarrow> string \<Rightarrow> worksheet option" where
  "getWorksheet wb name = map_of (worksheets wb) name"

definition first_worksheet :: "workbook \<Rightarrow> worksheet option" where
  "first_worksheet wb = (case worksheets wb of [] \<Rightarrow> None | (n, ws) # _ \<Rightarrow> Some ws)"

text \<open>\<open>x ?? null\<close>\<close>

definition or_null :: "jsval \<Rightarrow> jsval" where
  "or_null v = (if v = Undefined then Null else v)"

text \<open>Property lookup on a plain object: \<open>undefined\<close> when the key is absent.\<close>

definition obj_get :: "(string \<times> jsval) list \<Rightarrow> string \<Rightarrow> jsval" where
  "obj_get fs k = (case map_of fs k of None \<Rightarrow> Undefined | Some v \<Rightarrow> v)"

definition has_key :: "(string \<times> jsval) list \<Rightarrow> string \<Rightarrow> bool" where
  "has_key fs k = (map_of fs k \<noteq> None)"

fun cellToValue :: "jsval \<Rightarrow> jsval" where
  "cellToValue Null = Null"
| "cellToValue Undefined = Null"
| "cellToValue (Obj fs) =
     (if has_key fs ''text'' then or_null (obj_get fs ''text'')
      else if has_key fs ''result'' then or_null (obj_get fs ''result'')
      else Obj fs)"
| "cellToValue v = v"

definition readRowValues :: "worksheet \<Rightarrow> nat \<Rightarrow> nat \<Rightarrow> nat \<Rightarrow> jsval list" where
  "readRowValues ws rowNumber startCol endCol =
     map (\<lambda>col. cellToValue (cell ws rowNumber col)) [startCol ..< Suc endCol]"

text \<open>\<open>val === null || val === undefined || String(val).trim() === ''\<close>\<close>

definition is_blank :: "host \<Rightarrow> jsval \<Rightarrow> bool" where
  "is_blank h v = (v = Null \<or> v = Undefined \<or> trim (js_String h v) = [])"

definition findLastColumn :: "host \<Rightarrow> worksheet \<Rightarrow> nat \<Rightarrow> nat \<Rightarrow> nat" where
  "findLastColumn h ws headerRow startCol =
     foldl (\<lambda>last col. if \<not> is_blank h (cellToValue (cell ws headerRow col)) then col else last)
       startCol [startCol ..< Suc (columnCount ws)]"

definition isRowEmpty :: "host \<Rightarrow> jsval list \<Rightarrow> bool" where
  "isRowEmpty h vals = list_all (is_blank h) vals"

section \<open>More string and object operations\<close>

text \<open>\<open>toLowerCase()\<close> on code units below 256: the letters A to Z and the accented
  capitals 0xC0 to 0xDE (0xD7, the multiplication sign, apart) move up by 32.\<close>

definition lower_char :: "char \<Rightarrow> char" where
  "lower_char c =
     (let n = (of_char c :: nat)
      in if (65 \<le> n \<and> n \<le> 90) \<or> (192 \<le> n \<and> n \<le> 222 \<and> n \<noteq> 215) then char_of (n + 32) else c)"

definition toLowerCase :: "string \<Rightarrow> string" where
  "toLowerCase s = map lower_char s"

text \<open>\<open>s.replace(/\s+/g, ' ')\<close>: every run of white space becomes one space.\<close>

function collapse_ws :: "string \<Rightarrow> string" where
  "collapse_ws [] = []"
| "collapse_ws (c # cs) =
     (if is_ws c then CHR 0x20 # collapse_ws (dropWhile is_ws cs) else c # collapse_ws cs)"
  by pat_completeness auto
termination
  by (relation "measure length") (auto simp: length_dropWhile_le less_Suc_eq_le)

fun starts_with :: "string \<Rightarrow> string \<Rightarrow> bool" where
  "starts_with s [] = True"
| "starts_with [] (p # ps) = False"
| "starts_with (c # cs) (p # ps) = (c = p \<and> starts_with cs ps)"

text \<open>\<open>s.includes(sub)\<close>\<close>

fun str_includes :: "string \<Rightarrow> string \<Rightarrow> bool" where
  "str_includes [] sub = (sub = [])"
| "str_includes (c # cs) sub = (starts_with (c # cs) sub \<or> str_includes cs sub)"

text \<open>
  A record object (\<open>Record<string, unknown>\<close>) is the list of its own properties in
  insertion order. \<open>obj_set\<close> is the assignment \<open>o[k] = v\<close>: it overwrites an existing
  key in place and appends a new one. A header cell whose text is \<open>__proto__\<close> (an
  assignment to the prototype, not to a property) is outside the model.
\<close>

fun obj_set :: "string \<Rightarrow> jsval \<Rightarrow> (string \<times> jsval) list \<Rightarrow> (string \<times> jsval) list" where
  "obj_set k v [] = [(k, v)]"
| "obj_set k v ((k', v') # fs) = (if k' = k then (k, v) # fs else (k', v') # obj_set k v fs)"

text \<open>\<open>values[idx]\<close>: \<open>undefined\<close> beyond the end of the array.\<close>

definition nth_or_undefined :: "jsval list \<Rightarrow> nat \<Rightarrow> jsval" where
  "nth_or_undefined vs i = (if i < length vs then vs ! i else Undefined)"

text \<open>The loop \<open>headers.forEach((header, idx) => { rowMap[header] = values[idx]; })\<close>
  (also written as a \<open>reduce\<close> in the booking normalizer).\<close>

definition rowMap_of :: "string list \<Rightarrow> jsval list \<Rightarrow> (string \<times> jsval) list" where
  "rowMap_of headers vals =
     foldl (\<lambda>acc (idx, header). obj_set header (nth_or_undefined vals idx) acc) []
       (enumerate 0 headers)"

text \<open>\<open>Object.values(o)\<close>, up to the order of integer-like keys, which no caller
  depends on.\<close>

definition Object_values :: "(string \<times> jsval) list \<Rightarrow> jsval list" where
  "Object_values fs = map snd fs"

text \<open>\<open>v ? String(v) : null\<close>\<close>

definition string_or_null :: "host \<Rightarrow> jsval \<Rightarrow> string option" where
  "string_or_null h v = (if truthy v then Some (js_String h v) else None)"

text \<open>\<open>String(value ?? '').trim()\<close>, the text of a header cell.\<close>

definition header_text :: "host \<Rightarrow> jsval \<Rightarrow> string" where
  "header_text h v = trim (js_String h (if v = Null \<or> v = Undefined then Str [] else v))"

text \<open>\<open>parsed === null && v !== null && v !== undefined && String(v).trim() !== ''\<close>:
  a value that is present and fails numeric parsing.\<close>

definition coercion_lost :: "host \<Rightarrow> jsval \<Rightarrow> bool" where
  "coercion_lost h v = (parseNumeric h v = None \<and> \<not> is_blank h v)"

text \<open>A JavaScript \<open>Error\<close> that is thrown, with its message.\<close>

datatype error = Error string

text \<open>The counters every normalizer returns as \<open>stats\<close>.\<close>

record NormStats =
  rowsSkipped :: nat
  rowsCoerced :: nat

section \<open>Planning normalizer\<close>

record PlanningTarifRow =
  pt_hotel_fk :: string
  pt_date :: string
  pt_type_de_chambre :: string
  pt_plan_tarifaire :: "string option"
  pt_tarif :: "rat option"

record DisponibiliteRow =
  d_hotel_fk :: string
  d_date :: string
  d_type_de_chambre :: string
  d_disponibilites :: "rat option"
  d_ferme_a_la_vente :: "string option"

record planning_result = NormStats +
  planningTarifs :: "PlanningTarifRow list"
  disponibilites :: "DisponibiliteRow list"

text \<open>The callback of \<open>rowData.forEach\<close>, for one cell and the date of its column.\<close>

definition planning_cell ::
  "host \<Rightarrow> string \<Rightarrow> string \<Rightarrow> string option \<Rightarrow> string \<Rightarrow> planning_result
     \<Rightarrow> jsval \<times> string option \<Rightarrow> planning_result" where
  "planning_cell h hotelFk metric planTarifaire roomType acc cd =
     (let cellValue = fst cd; date = snd cd
      in if date = None \<or> date = Some [] then acc
         else if str_includes metric ''left for sale'' then
           (if is_blank h cellValue then acc\<lparr>rowsSkipped := rowsSkipped acc + 1\<rparr>
            else (let text = trim (js_String h cellValue);
                      numericValue = parseNumeric h (Str text)
                  in if toLowerCase text = ''x'' then
                       acc\<lparr>rowsCoerced := rowsCoerced acc + 1,
                           disponibilites := disponibilites acc @
                             [\<lparr>d_hotel_fk = hotelFk, d_date = the date, d_type_de_chambre = roomType,
                               d_disponibilites = Some 0, d_ferme_a_la_vente = Some ''x''\<rparr>]\<rparr>
                     else
                       acc\<lparr>disponibilites := disponibilites acc @
                             [\<lparr>d_hotel_fk = hotelFk, d_date = the date, d_type_de_chambre = roomType,
                               d_disponibilites = numericValue, d_ferme_a_la_vente = None\<rparr>]\<rparr>))
         else if str_includes metric ''price'' \<or> str_includes metric ''tarif'' then
           acc\<lparr>planningTarifs := planningTarifs acc @
                 [\<lparr>pt_hotel_fk = hotelFk, pt_date = the date, pt_type_de_chambre = roomType,
                   pt_plan_tarifaire = Some (case planTarifaire of None \<Rightarrow> [] | Some p \<Rightarrow> p),
                   pt_tarif = parseNumeric h cellValue\<rparr>]\<rparr>
         else acc)"

text \<open>One iteration of the row loop; \<open>currentRoomType\<close> is threaded with the results.\<close>

definition planning_row ::
  "host \<Rightarrow> worksheet \<Rightarrow> string \<Rightarrow> nat \<Rightarrow> string option list
     \<Rightarrow> string option \<times> planning_result \<Rightarrow> nat \<Rightarrow> string option \<times> planning_result" where
  "planning_row h ws hotelFk endDateCol dates st rowIndex =
     (let currentRoomType = fst st; acc = snd st;
          roomTypeCell = cellToValue (cell ws rowIndex 1);
          planCell = cellToValue (cell ws rowIndex 2);
          metricCell = cellToValue (cell ws rowIndex 3)
      in if isRowEmpty h [roomTypeCell, planCell, metricCell]
            \<and> isRowEmpty h (readRowValues ws rowIndex 4 endDateCol)
         then (currentRoomType, acc\<lparr>rowsSkipped := rowsSkipped acc + 1\<rparr>)
         else
           (let currentRoomType =
                  (if truthy roomTypeCell \<and> trim (js_String h roomTypeCell) \<noteq> []
                   then Some (trim (js_String h roomTypeCell)) else currentRoomType)
            in if currentRoomType = None \<or> currentRoomType = Some []
               then (currentRoomType, acc\<lparr>rowsSkipped := rowsSkipped acc + 1\<rparr>)
               else
                 (let metric = (if truthy metricCell
                                then collapse_ws (toLowerCase (js_String h metricCell)) else []);
                      planTarifaire = (if truthy planCell
                                       then Some (trim (js_String h planCell)) else None);
                      roomType = the currentRoomType;
                      rowData = readRowValues ws rowIndex 4 endDateCol
                  in (currentRoomType,
                      foldl (planning_cell h hotelFk metric planTarifaire roomType) acc
                        (zip rowData dates)))))"

definition planningNormalizer :: "host \<Rightarrow> workbook \<Rightarrow> string \<Rightarrow> error + planning_result" where
  "planningNormalizer h wb hotelFk =
     (case (case getWorksheet wb ''Planning'' of Some ws \<Rightarrow> Some ws | None \<Rightarrow> first_worksheet wb) of
        None \<Rightarrow> Inl (Error ''Sheet Planning introuvable'')
      | Some ws \<Rightarrow>
          (let headerRow = 1; startDateCol = 4;
               endDateCol = findLastColumn h ws headerRow startDateCol;
               dateValues = readRowValues ws headerRow startDateCol endDateCol;
               dates = map (normalizeDate h) dateValues
           in Inr (snd (foldl (planning_row h ws hotelFk endDateCol dates)
                          (None, \<lparr>rowsSkipped = 0, rowsCoerced = 0,
                                  planningTarifs = [], disponibilites = []\<rparr>)
                          [Suc headerRow ..< Suc (rowCount ws)]))))"

section \<open>Events normalizer\<close>

definition col_Evenement :: string where
  "col_Evenement = [CHR 0xC9] @ ''v'' @ [CHR 0xE9] @ ''nement''"

definition col_Debut :: string where
  "col_Debut = ''D'' @ [CHR 0xE9] @ ''but''"

definition col_Indice :: string where
  "col_Indice = ''Indice impact attendu sur la demande /10''"

definition col_Multiplicateur :: string where
  "col_Multiplicateur = ''Multiplicateur''"

record EventRow =
  ev_hotel_fk :: string
  ev_Evenement :: "string option"
  ev_Debut :: "string option"
  ev_Fin :: "string option"
  ev_Indice :: "rat option"
  ev_Multiplicateur :: "rat option"
  ev_Pourquoi :: "string option"
  ev_Conseils :: "string option"

record events_result = NormStats +
  events :: "EventRow list"

text \<open>One iteration of the row loop of \<open>eventsNormalizer\<close>.\<close>

definition events_row ::
  "host \<Rightarrow> worksheet \<Rightarrow> string \<Rightarrow> string list \<Rightarrow> nat \<Rightarrow> events_result \<Rightarrow> nat \<Rightarrow> events_result" where
  "events_row h ws hotelFk headers endCol acc rowIndex =
     (let vals = readRowValues ws rowIndex 1 endCol
      in if isRowEmpty h vals then acc\<lparr>rowsSkipped := rowsSkipped acc + 1\<rparr>
         else
           (let rowMap = rowMap_of headers vals;
                impact = parseNumeric h (obj_get rowMap col_Indice);
                multiplicateur = parseNumeric h (obj_get rowMap col_Multiplicateur);
                c1 = (if impact = None \<and> truthy (obj_get rowMap col_Indice) then 1 else 0);
                c2 = (if multiplicateur = None \<and> truthy (obj_get rowMap col_Multiplicateur)
                      then 1 else 0)
            in acc\<lparr>rowsCoerced := rowsCoerced acc + c1 + c2,
                   events := events acc @
                     [\<lparr>ev_hotel_fk = hotelFk,
                       ev_Evenement = string_or_null h (obj_get rowMap col_Evenement),
                       ev_Debut = normalizeDate h (obj_get rowMap col_Debut),
                       ev_Fin = normalizeDate h (obj_get rowMap ''Fin''),
                       ev_Indice = impact,
                       ev_Multiplicateur = multiplicateur,
                       ev_Pourquoi = string_or_null h (obj_get rowMap ''Pourquoi cet indice''),
                       ev_Conseils = string_or_null h (obj_get rowMap ''Conseils yield'')\<rparr>]\<rparr>))"

definition eventsNormalizer :: "host \<Rightarrow> workbook \<Rightarrow> string \<Rightarrow> error + events_result" where
  "eventsNormalizer h wb hotelFk =
     (case first_worksheet wb of
        None \<Rightarrow> Inl (Error (''Feuille '' @ [CHR 0xE9] @ ''v'' @ [CHR 0xE9] @ ''nements introuvable''))
      | Some ws \<Rightarrow>
          (let headerRow = 1; startCol = 1;
               endCol = findLastColumn h ws headerRow startCol;
               headers = map (header_text h) (readRowValues ws headerRow startCol endCol)
           in Inr (foldl (events_row h ws hotelFk headers endCol)
                     \<lparr>rowsSkipped = 0, rowsCoerced = 0, events = []\<rparr>
                     [Suc headerRow ..< Suc (rowCount ws)])))"

section \<open>Booking-export normalizer\<close>

text \<open>A \<open>string | null\<close> and a \<open>number | null\<close> stored back into a record object.\<close>

definition of_string_option :: "string option \<Rightarrow> jsval" where
  "of_string_option x = (case x of None \<Rightarrow> Null | Some s \<Rightarrow> Str s)"

definition of_number_option :: "rat option \<Rightarrow> jsval" where
  "of_number_option x = (case x of None \<Rightarrow> Null | Some q \<Rightarrow> Num (Fin q))"

definition Math_trunc :: "rat \<Rightarrow> rat" where
  "Math_trunc q = of_int (if 0 \<le> q then \<lfloor>q\<rfloor> else \<lceil>q\<rceil>)"

definition datetimeColumns :: "(string \<times> string) list" where
  "datetimeColumns =
     [(''Date d'' @ [CHR 0x27] @ ''achat'', ''Heure d'' @ [CHR 0x27] @ ''achat''),
      (''Derni'' @ [CHR 0xE8] @ ''re modification'',
       ''Heure de derni'' @ [CHR 0xE8] @ ''re modification''),
      (''Date d'' @ [CHR 0x27] @ ''annulation'', ''Heure d'' @ [CHR 0x27] @ ''annulation'')]"

definition dateColumns :: "string list" where
  "dateColumns = [''Date d'' @ [CHR 0x27] @ ''arriv'' @ [CHR 0xE9] @ ''e'',
                  ''Date de d'' @ [CHR 0xE9] @ ''part'']"

definition numericColumns :: "string list" where
  "numericColumns = [''Montant total'', ''Montant du panier'', ''Montant restant'']"

definition intColumns :: "string list" where
  "intColumns = [''H'' @ [CHR 0xF4] @ ''tel (ID)'', ''Nuits'', ''Chambres'', ''Adultes'', ''Enfants'',
                 ''B'' @ [CHR 0xE9] @ ''b'' @ [CHR 0xE9] @ ''s'', ''Garantie'',
                 ''Partenaire de distribution (ID)'']"

type_synonym BookingExportRow = "(string \<times> jsval) list"

record export_result = NormStats +
  bookingExport :: "BookingExportRow list"

definition export_dates :: "host \<Rightarrow> (string \<times> jsval) list \<Rightarrow> (string \<times> jsval) list" where
  "export_dates h rowMap =
     foldl (\<lambda>m col. obj_set col (of_string_option (normalizeDate h (obj_get m col))) m)
       rowMap dateColumns"

definition export_datetimes :: "host \<Rightarrow> (string \<times> jsval) list \<Rightarrow> (string \<times> jsval) list" where
  "export_datetimes h rowMap =
     foldl (\<lambda>m dt. (let r = splitDateTime h (obj_get m (fst dt))
                     in obj_set (snd dt) (of_string_option (snd r))
                          (obj_set (fst dt) (of_string_option (fst r)) m)))
       rowMap datetimeColumns"

text \<open>The two numeric passes thread the record object and the coerced counter.\<close>

definition export_numeric ::
  "host \<Rightarrow> (string \<times> jsval) list \<times> nat \<Rightarrow> string \<Rightarrow> (string \<times> jsval) list \<times> nat" where
  "export_numeric h mc col =
     (let m = fst mc; parsed = parseNumeric h (obj_get m col)
      in (obj_set col (of_number_option parsed) m,
          snd mc + (if coercion_lost h (obj_get m col) then 1 else 0)))"

definition export_int ::
  "host \<Rightarrow> (string \<times> jsval) list \<times> nat \<Rightarrow> string \<Rightarrow> (string \<times> jsval) list \<times> nat" where
  "export_int h mc col =
     (let m = fst mc; numeric = parseNumeric h (obj_get m col)
      in (obj_set col (of_number_option (map_option Math_trunc numeric)) m,
          snd mc + (if coercion_lost h (obj_get m col) then 1 else 0)))"

text \<open>\<open>{ hotel_fk: hotelFk, ...rowMap }\<close>\<close>

definition spread_row :: "string \<Rightarrow> (string \<times> jsval) list \<Rightarrow> BookingExportRow" where
  "spread_row hotelFk rowMap =
     foldl (\<lambda>acc kv. obj_set (fst kv) (snd kv) acc) [(''hotel_fk'', Str hotelFk)] rowMap"

definition export_row ::
  "host \<Rightarrow> worksheet \<Rightarrow> string \<Rightarrow> string list \<Rightarrow> nat \<Rightarrow> export_result \<Rightarrow> nat \<Rightarrow> export_result" where
  "export_row h ws hotelFk headers endCol acc rowIndex =
     (let vals = readRowValues ws rowIndex 1 endCol
      in if isRowEmpty h vals then acc\<lparr>rowsSkipped := rowsSkipped acc + 1\<rparr>
         else
           (let rowMap = export_datetimes h (export_dates h (rowMap_of headers vals));
                mc = foldl (export_numeric h) (rowMap, rowsCoerced acc) numericColumns;
                mc = foldl (export_int h) mc intColumns
            in acc\<lparr>rowsCoerced := snd mc,
                   bookingExport := bookingExport acc @ [spread_row hotelFk (fst mc)]\<rparr>))"

definition bookingExportNormalizer :: "host \<Rightarrow> workbook \<Rightarrow> string \<Rightarrow> error + export_result" where
  "bookingExportNormalizer h wb hotelFk =
     (case first_worksheet wb of
        None \<Rightarrow> Inl (Error ''Feuille BookingExport introuvable'')
      | Some ws \<Rightarrow>
          (let headerRow = 1; startCol = 1;
               endCol = findLastColumn h ws headerRow startCol;
               headers = map (header_text h) (readRowValues ws headerRow startCol endCol)
           in Inr (foldl (export_row h ws hotelFk headers endCol)
                     \<lparr>rowsSkipped = 0, rowsCoerced = 0, bookingExport = []\<rparr>
                     [Suc headerRow ..< Suc (rowCount ws)])))"

section \<open>Booking-comparison normalizer\<close>

definition col_Demande :: string where
  "col_Demande = ''Demande du march'' @ [CHR 0xE9]"

definition col_VotreHotel :: string where
  "col_VotreHotel = ''Votre h'' @ [CHR 0xF4] @ ''tel le plus bas''"

definition col_mediane :: string where
  "col_mediane = ''m'' @ [CHR 0xE9] @ ''diane du compset''"

definition col_JoursFeries :: string where
  "col_JoursFeries = ''Jours f'' @ [CHR 0xE9] @ ''ri'' @ [CHR 0xE9] @ ''s''"

definition col_Evenements :: string where
  "col_Evenements = [CHR 0xC9] @ ''v'' @ [CHR 0xE9] @ ''nements''"

record BookingApercuRow =
  ba_hotel_fk :: string
  ba_date_mise_a_jour :: "string option"
  ba_Jour :: "string option"
  ba_Date :: "string option"
  ba_VotreHotel :: rat
  ba_TarifLePlusBas :: "rat option"
  ba_mediane :: "rat option"
  ba_TarifLePlusBas_mediane :: "rat option"
  ba_ClassementTarifs :: "string option"
  ba_Demande :: rat
  ba_BookingClassement :: "string option"
  ba_JoursFeries :: "string option"
  ba_Evenements :: "string option"
  ba_raw_row :: "(string \<times> jsval) list"

record BookingTarifsMarketRow =
  tm_hotel_fk :: string
  tm_date_mise_a_jour :: "string option"
  tm_Jour :: "string option"
  tm_Date :: "string option"
  tm_Demande :: rat
  tm_raw_row :: "(string \<times> jsval) list"

record BookingTarifsCompetitorRow =
  tc_hotel_fk :: string
  tc_date_mise_a_jour :: "string option"
  tc_Jour :: "string option"
  tc_Date :: "string option"
  tc_competitor_name :: string
  tc_price :: rat
  tc_raw_price :: "string option"

record BookingVsMarketRow =
  vm_hotel_fk :: string
  vm_date_mise_a_jour :: "string option"
  vm_horizon :: string
  vm_Jour :: "string option"
  vm_Date :: "string option"
  vm_Demande :: rat
  vm_delta_demande :: rat
  vm_raw_demande :: "string option"
  vm_raw_delta_demande :: "string option"
  vm_raw_row :: "(string \<times> jsval) list"

record BookingVsCompetitorRow =
  vc_hotel_fk :: string
  vc_date_mise_a_jour :: "string option"
  vc_horizon :: string
  vc_Jour :: "string option"
  vc_Date :: "string option"
  vc_competitor_name :: string
  vc_price :: rat
  vc_delta :: rat
  vc_raw_price :: "string option"
  vc_raw_delta :: "string option"

record booking_result = NormStats +
  dateMiseAJour :: "string option"
  bookingApercu :: "BookingApercuRow list"
  bookingTarifsMarket :: "BookingTarifsMarketRow list"
  bookingTarifsCompetitors :: "BookingTarifsCompetitorRow list"
  bookingVsMarket :: "BookingVsMarketRow list"
  bookingVsCompetitors :: "BookingVsCompetitorRow list"
  competitors :: "string list"

text \<open>
  \<open>ANNOTATION_PATTERN.test(s)\<close> for \<open>/(LOS\s*\d+|LOS\d+|annotation|note)/i\<close>: somewhere
  in \<open>s\<close>, ignoring case, stands \<open>LOS\<close>, any white space and a digit, or
  \<open>annotation\<close>, or \<open>note\<close>. \<open>annotation_at\<close> tries the pattern at the head of a
  string.
\<close>

definition annotation_at :: "string \<Rightarrow> bool" where
  "annotation_at s =
     ((starts_with (toLowerCase s) ''los''
         \<and> (let r = dropWhile is_ws (drop 3 s) in r \<noteq> [] \<and> is_digit (hd r)))
      \<or> starts_with (toLowerCase s) ''annotation''
      \<or> starts_with (toLowerCase s) ''note'')"

fun ANNOTATION_PATTERN_test :: "string \<Rightarrow> bool" where
  "ANNOTATION_PATTERN_test [] = False"
| "ANNOTATION_PATTERN_test (c # cs) = (annotation_at (c # cs) \<or> ANNOTATION_PATTERN_test cs)"

text \<open>\<open>typeof val === 'string' && ANNOTATION_PATTERN.test(val)\<close>\<close>

fun is_annotation :: "jsval \<Rightarrow> bool" where
  "is_annotation (Str s) = ANNOTATION_PATTERN_test s"
| "is_annotation v = False"

text \<open>\<open>values[idx] ?? null\<close> for every header.\<close>

definition rowToObject :: "string list \<Rightarrow> jsval list \<Rightarrow> (string \<times> jsval) list" where
  "rowToObject headers vals =
     foldl (\<lambda>acc (idx, header). obj_set header (or_null (nth_or_undefined vals idx)) acc) []
       (enumerate 0 headers)"

definition shouldSkipRow :: "host \<Rightarrow> jsval \<Rightarrow> jsval list \<Rightarrow> bool" where
  "shouldSkipRow h dateValue numericValues =
     (let date = normalizeDate h dateValue
      in if date = None \<or> date = Some [] then True
         else if list_ex is_annotation numericValues then True
         else False)"

definition extractHeaders :: "host \<Rightarrow> worksheet \<Rightarrow> nat \<Rightarrow> nat \<Rightarrow> bool \<Rightarrow> string list \<times> nat" where
  "extractHeaders h ws headerRow startCol allowEmpty =
     (let endCol = findLastColumn h ws headerRow startCol;
          headerValues = readRowValues ws headerRow startCol endCol;
          headers = map (header_text h) headerValues;
          finalHeaders = (if allowEmpty then headers else filter (\<lambda>v. v \<noteq> []) headers)
      in (finalHeaders, startCol + length finalHeaders - 1))"

text \<open>\<open>v !== null && v !== undefined ? String(v) : null\<close>\<close>

definition raw_text :: "host \<Rightarrow> jsval \<Rightarrow> string option" where
  "raw_text h v = (if v \<noteq> Null \<and> v \<noteq> Undefined then Some (js_String h v) else None)"

text \<open>\<open>competitors.add(header)\<close> on a \<open>Set\<close>, kept in insertion order.\<close>

definition set_add :: "string \<Rightarrow> string list \<Rightarrow> string list" where
  "set_add x xs = (if x \<in> set xs then xs else xs @ [x])"

definition count_lost :: "host \<Rightarrow> jsval \<Rightarrow> nat" where
  "count_lost h v = (if coercion_lost h v then 1 else 0)"

text \<open>One iteration of the row loop over the overview sheet.\<close>

definition apercu_row ::
  "host \<Rightarrow> worksheet \<Rightarrow> string \<Rightarrow> string list \<Rightarrow> nat \<Rightarrow> booking_result \<Rightarrow> nat \<Rightarrow> booking_result" where
  "apercu_row h ws hotelFk headers endCol acc rowIndex =
     (let vals = readRowValues ws rowIndex 2 endCol
      in if isRowEmpty h vals then acc
         else
           (let rawRow = rowToObject headers vals;
                rowMap = rowMap_of headers vals;
                dateValue = obj_get rowMap ''Date'';
                numericValues = map (obj_get rowMap) [col_VotreHotel, col_Demande]
            in if shouldSkipRow h dateValue numericValues
               then acc\<lparr>rowsSkipped := rowsSkipped acc + 1\<rparr>
               else
                 (let mergedHeader =
                        find (\<lambda>x. str_includes (toLowerCase x) ''tarif le plus bas''
                                  \<and> str_includes (toLowerCase x) (''m'' @ [CHR 0xE9] @ ''diane''))
                          headers;
                      votreHotel = obj_get rowMap col_VotreHotel;
                      demandeMarche = obj_get rowMap col_Demande
                  in acc\<lparr>rowsCoerced :=
                           rowsCoerced acc + count_lost h votreHotel + count_lost h demandeMarche,
                         bookingApercu := bookingApercu acc @
                           [\<lparr>ba_hotel_fk = hotelFk,
                             ba_date_mise_a_jour = dateMiseAJour acc,
                             ba_Jour = string_or_null h (obj_get rowMap ''Jour''),
                             ba_Date = normalizeDate h dateValue,
                             ba_VotreHotel = parseNumericZero h votreHotel,
                             ba_TarifLePlusBas =
                               (if obj_get rowMap ''Tarif le plus bas'' \<noteq> Undefined
                                then parseNumeric h (obj_get rowMap ''Tarif le plus bas'') else None),
                             ba_mediane =
                               (if obj_get rowMap col_mediane \<noteq> Undefined
                                then parseNumeric h (obj_get rowMap col_mediane) else None),
                             ba_TarifLePlusBas_mediane =
                               (case mergedHeader of
                                  None \<Rightarrow> None
                                | Some m \<Rightarrow> if m = [] then None else parseNumeric h (obj_get rowMap m)),
                             ba_ClassementTarifs =
                               string_or_null h (obj_get rowMap ''Classement des tarifs du compset''),
                             ba_Demande = parseNumericZero h demandeMarche,
                             ba_BookingClassement =
                               string_or_null h (obj_get rowMap ''Booking.com Classement''),
                             ba_JoursFeries = string_or_null h (obj_get rowMap col_JoursFeries),
                             ba_Evenements = string_or_null h (obj_get rowMap col_Evenements),
                             ba_raw_row = rawRow\<rparr>]\<rparr>)))"

text \<open>The callback of \<open>headers.forEach\<close> on the market-rate sheet: one competitor column.\<close>

definition tarifs_competitor ::
  "host \<Rightarrow> string \<Rightarrow> (string \<times> jsval) list \<Rightarrow> string option \<Rightarrow> string option
     \<Rightarrow> booking_result \<Rightarrow> string \<Rightarrow> booking_result" where
  "tarifs_competitor h hotelFk rowMap jour date acc header =
     (if header \<in> set [''Jour'', ''Date'', col_Demande] then acc
      else
        (let rawPrice = obj_get rowMap header
         in acc\<lparr>rowsCoerced := rowsCoerced acc + count_lost h rawPrice,
                competitors := set_add header (competitors acc),
                bookingTarifsCompetitors := bookingTarifsCompetitors acc @
                  [\<lparr>tc_hotel_fk = hotelFk,
                    tc_date_mise_a_jour = dateMiseAJour acc,
                    tc_Jour = jour,
                    tc_Date = date,
                    tc_competitor_name = header,
                    tc_price = parseNumericZero h rawPrice,
                    tc_raw_price = raw_text h rawPrice\<rparr>]\<rparr>))"

text \<open>One iteration of the row loop over the market-rate sheet.\<close>

definition tarifs_row ::
  "host \<Rightarrow> worksheet \<Rightarrow> string \<Rightarrow> string list \<Rightarrow> nat \<Rightarrow> booking_result \<Rightarrow> nat \<Rightarrow> booking_result" where
  "tarifs_row h ws hotelFk headers endCol acc rowIndex =
     (let vals = readRowValues ws rowIndex 2 endCol
      in if isRowEmpty h vals then acc
         else
           (let rawRow = rowToObject headers vals;
                rowMap = rowMap_of headers vals;
                dateValue = obj_get rowMap ''Date''
            in if shouldSkipRow h dateValue (Object_values rowMap)
               then acc\<lparr>rowsSkipped := rowsSkipped acc + 1\<rparr>
               else
                 (let jour = string_or_null h (obj_get rowMap ''Jour'');
                      date = normalizeDate h dateValue;
                      demandeValue = obj_get rowMap col_Demande;
                      acc = acc\<lparr>rowsCoerced := rowsCoerced acc + count_lost h demandeValue,
                                bookingTarifsMarket := bookingTarifsMarket acc @
                                  [\<lparr>tm_hotel_fk = hotelFk,
                                    tm_date_mise_a_jour = dateMiseAJour acc,
                                    tm_Jour = jour,
                                    tm_Date = date,
                                    tm_Demande = parseNumericZero h demandeValue,
                                    tm_raw_row = rawRow\<rparr>]\<rparr>
                  in foldl (tarifs_competitor h hotelFk rowMap jour date) acc headers)))"

text \<open>\<open>s.endsWith(suffix)\<close>\<close>

definition ends_with :: "string \<Rightarrow> string \<Rightarrow> bool" where
  "ends_with s suffix = starts_with (rev s) (rev suffix)"

text \<open>The delta columns of a versus sheet have a blank header; each takes the name of
  the last named header, suffixed.\<close>

definition reconstruct_step :: "string list \<times> string \<Rightarrow> string \<Rightarrow> string list \<times> string" where
  "reconstruct_step st header =
     (let reconstructedHeaders = fst st; lastHeader = snd st
      in if header = [] \<and> lastHeader \<noteq> []
         then (reconstructedHeaders @ [lastHeader @ ''__delta''], lastHeader)
         else (reconstructedHeaders @ [header], header))"

definition reconstructHeaders :: "string list \<Rightarrow> string list" where
  "reconstructHeaders headers = fst (foldl reconstruct_step ([], []) headers)"

text \<open>The callback of \<open>reconstructedHeaders.forEach\<close> on a versus sheet.\<close>

definition vs_competitor ::
  "host \<Rightarrow> string \<Rightarrow> string \<Rightarrow> (string \<times> jsval) list \<Rightarrow> string option \<Rightarrow> string option
     \<Rightarrow> booking_result \<Rightarrow> string \<Rightarrow> booking_result" where
  "vs_competitor h hotelFk horizon rowMap jour date acc header =
     (if header \<in> set [''Jour'', ''Date'', col_Demande, col_Demande @ ''__delta''] then acc
      else if ends_with header ''__delta'' then acc
      else
        (let deltaHeader = header @ ''__delta'';
             rawPrice = obj_get rowMap header;
             rawDelta = obj_get rowMap deltaHeader
         in acc\<lparr>rowsCoerced := rowsCoerced acc + count_lost h rawPrice + count_lost h rawDelta,
                competitors := set_add header (competitors acc),
                bookingVsCompetitors := bookingVsCompetitors acc @
                  [\<lparr>vc_hotel_fk = hotelFk,
                    vc_date_mise_a_jour = dateMiseAJour acc,
                    vc_horizon = horizon,
                    vc_Jour = jour,
                    vc_Date = date,
                    vc_competitor_name = header,
                    vc_price = parseNumericZero h rawPrice,
                    vc_delta = parseNumericZero h rawDelta,
                    vc_raw_price = raw_text h rawPrice,
                    vc_raw_delta = raw_text h rawDelta\<rparr>]\<rparr>))"

text \<open>One iteration of the row loop over a versus sheet.\<close>

definition vs_row ::
  "host \<Rightarrow> worksheet \<Rightarrow> string \<Rightarrow> string \<Rightarrow> string list \<Rightarrow> nat \<Rightarrow> booking_result \<Rightarrow> nat
     \<Rightarrow> booking_result" where
  "vs_row h ws hotelFk horizon reconstructedHeaders endCol acc rowIndex =
     (let vals = readRowValues ws rowIndex 2 endCol
      in if isRowEmpty h vals then acc
         else
           (let rawRow = rowToObject reconstructedHeaders vals;
                rowMap = rowMap_of reconstructedHeaders vals
            in if shouldSkipRow h (obj_get rowMap ''Date'') (Object_values rowMap)
               then acc\<lparr>rowsSkipped := rowsSkipped acc + 1\<rparr>
               else
                 (let jour = string_or_null h (obj_get rowMap ''Jour'');
                      date = normalizeDate h (obj_get rowMap ''Date'');
                      demandeValue = obj_get rowMap col_Demande;
                      deltaDemandeValue = obj_get rowMap (col_Demande @ ''__delta'');
                      acc = acc\<lparr>rowsCoerced := rowsCoerced acc + count_lost h demandeValue
                                                 + count_lost h deltaDemandeValue,
                                bookingVsMarket := bookingVsMarket acc @
                                  [\<lparr>vm_hotel_fk = hotelFk,
                                    vm_date_mise_a_jour = dateMiseAJour acc,
                                    vm_horizon = horizon,
                                    vm_Jour = jour,
                                    vm_Date = date,
                                    vm_Demande = parseNumericZero h demandeValue,
                                    vm_delta_demande = parseNumericZero h deltaDemandeValue,
                                    vm_raw_demande = raw_text h demandeValue,
                                    vm_raw_delta_demande = raw_text h deltaDemandeValue,
                                    vm_raw_row = rawRow\<rparr>]\<rparr>
                  in foldl (vs_competitor h hotelFk horizon rowMap jour date) acc
                       reconstructedHeaders)))"

definition vsSheets :: "(string \<times> string) list" where
  "vsSheets = [(''vs. Hier'', ''hier''), (''vs. 3 jours'', ''3j''), (''vs. 7 jours'', ''7j'')]"

definition apercu_sheet :: "host \<Rightarrow> string \<Rightarrow> booking_result \<Rightarrow> worksheet \<Rightarrow> booking_result" where
  "apercu_sheet h hotelFk acc ws =
     (let headerRow = 5; startCol = 2;
          he = extractHeaders h ws headerRow startCol False;
          dataStart = headerRow + 1
      in foldl (apercu_row h ws hotelFk (fst he) (snd he)) acc [dataStart ..< Suc (rowCount ws)])"

definition tarifs_sheet :: "host \<Rightarrow> string \<Rightarrow> booking_result \<Rightarrow> worksheet \<Rightarrow> booking_result" where
  "tarifs_sheet h hotelFk acc ws =
     (let headerRow = 5; startCol = 2;
          he = extractHeaders h ws headerRow startCol False;
          dataStart = headerRow + 1
      in foldl (tarifs_row h ws hotelFk (fst he) (snd he)) acc [dataStart ..< Suc (rowCount ws)])"

definition vs_sheet ::
  "host \<Rightarrow> workbook \<Rightarrow> string \<Rightarrow> booking_result \<Rightarrow> string \<times> string \<Rightarrow> booking_result" where
  "vs_sheet h wb hotelFk acc vsSheetConfig =
     (case getWorksheet wb (fst vsSheetConfig) of
        None \<Rightarrow> acc
      | Some sheet \<Rightarrow>
          (let headerRow = 5; startCol = 2;
               he = extractHeaders h sheet headerRow startCol True;
               dataStart = headerRow + 1;
               reconstructedHeaders = reconstructHeaders (fst he)
           in foldl (vs_row h sheet hotelFk (snd vsSheetConfig) reconstructedHeaders (snd he)) acc
                [dataStart ..< Suc (rowCount sheet)]))"

text \<open>
  \<open>bookingLowestNormalizer\<close>. The ``last updated'' anchor it reads first
  (\<open>parseUpdateDateFromSheet\<close>, with the current year as fallback) only fills the field
  \<open>date_mise_a_jour\<close> of the rows; it is the parameter \<open>upd\<close>.
\<close>

definition bookingLowestNormalizer ::
  "host \<Rightarrow> (worksheet \<Rightarrow> string option) \<Rightarrow> workbook \<Rightarrow> string \<Rightarrow> booking_result" where
  "bookingLowestNormalizer h upd wb hotelFk =
     (let tarifsSheet = getWorksheet wb ''Tarifs'';
          acc = \<lparr>rowsSkipped = 0, rowsCoerced = 0,
                 dateMiseAJour = (case tarifsSheet of None \<Rightarrow> None | Some ws \<Rightarrow> upd ws),
                 bookingApercu = [], bookingTarifsMarket = [], bookingTarifsCompetitors = [],
                 bookingVsMarket = [], bookingVsCompetitors = [], competitors = []\<rparr>;
          acc = (case getWorksheet wb (''Aper'' @ [CHR 0xE7] @ ''u'') of
                   None \<Rightarrow> acc | Some ws \<Rightarrow> apercu_sheet h hotelFk acc ws);
          acc = (case tarifsSheet of None \<Rightarrow> acc | Some ws \<Rightarrow> tarifs_sheet h hotelFk acc ws)
      in foldl (vs_sheet h wb hotelFk) acc vsSheets)"

section \<open>Run orchestrator\<close>

text \<open>
  The store is an external service. What it answers is not decided by the repository,
  so the model takes it from a script: the list of the answers the store gives to the
  successive calls of one run (when the script is used up, every further call
  succeeds). \<open>Done id\<close> is a call that resolves without error, \<open>id\<close> being the
  \<open>data.id\<close> it returns when asked for one; \<open>Failed msg\<close> resolves with an error
  object of that message; \<open>Rejected msg\<close> is a call whose promise rejects, so that the
  \<open>await\<close> throws. The store records the calls it receives and the updates it
  applied to the run record.
\<close>

datatype reply = Done string | Failed string | Rejected string

datatype meta =
    MetaCounts nat nat nat nat rat "string list"
  | MetaErrors "string list"

record run_update =
  u_status :: string
  u_finished_at :: string
  u_error_message :: "string option"
  u_meta :: meta

text \<open>A row handed to \<open>batchInsert\<close>: a row of one of the nine output collections.\<close>

datatype table_row =
    Row_planning_tarifs PlanningTarifRow
  | Row_disponibilites DisponibiliteRow
  | Row_booking_export BookingExportRow
  | Row_events_calendar EventRow
  | Row_booking_apercu BookingApercuRow
  | Row_booking_tarifs_market BookingTarifsMarketRow
  | Row_booking_tarifs_competitors BookingTarifsCompetitorRow
  | Row_booking_vs_market BookingVsMarketRow
  | Row_booking_vs_competitors BookingVsCompetitorRow

text \<open>The calls the store receives: the upsert of the hotel, the insert of the run record,
  the insert of a chunk of rows into a table, the upsert of the competitor names, the update
  of the run record.\<close>

datatype call =
    HotelUpsert string string
  | RunInsert string string string
  | RowsInsert string "table_row list"
  | CompetitorUpsert "string list"
  | RunUpdate string run_update

record store =
  script :: "reply list"
  calls :: "call list"
  run_updates :: "run_update list"

definition store_call :: "call \<Rightarrow> store \<Rightarrow> reply \<times> store" where
  "store_call c st =
     (case script st of
        [] \<Rightarrow> (Done [], st\<lparr>calls := calls st @ [c]\<rparr>)
      | r # rs \<Rightarrow> (r, st\<lparr>script := rs, calls := calls st @ [c]\<rparr>))"

text \<open>The answer the store will give to its next call.\<close>

definition next_reply :: "store \<Rightarrow> reply" where
  "next_reply st = (case script st of [] \<Rightarrow> Done [] | r # rs \<Rightarrow> r)"

record ImportStats = NormStats +
  rowsInserted :: nat
  rowErrors :: nat
  errors :: "string list"

text \<open>The command line options, the two environment settings (the batch size as the
  non-negative integer it is documented to be, the threshold as the value of the double
  it is read as), the outcome of reading the workbook file, and the clock.\<close>

record run_env =
  opt_file :: string
  opt_template :: string
  opt_hotel_id :: string
  opt_hotel_name :: "string option"
  batchSize :: nat
  errorRateThreshold :: jsnum
  readFile :: "error + workbook"
  updateAnchor :: "worksheet \<Rightarrow> string option"
  now :: string

definition upsertHotel :: "string \<Rightarrow> string option \<Rightarrow> store \<Rightarrow> (error + string) \<times> store" where
  "upsertHotel hotelId hotelName st =
     (let rs = store_call (HotelUpsert hotelId (case hotelName of None \<Rightarrow> hotelId | Some n \<Rightarrow> n)) st
      in case fst rs of
           Rejected msg \<Rightarrow> (Inl (Error msg), snd rs)
         | Failed msg \<Rightarrow> (Inl (Error (''Hotel upsert failed: '' @ msg)), snd rs)
         | Done ident \<Rightarrow> (Inr ident, snd rs))"

definition createImportRun ::
  "string \<Rightarrow> string \<Rightarrow> string \<Rightarrow> store \<Rightarrow> (error + string) \<times> store" where
  "createImportRun hotelFk template fileName st =
     (let rs = store_call (RunInsert hotelFk fileName template) st
      in case fst rs of
           Rejected msg \<Rightarrow> (Inl (Error msg), snd rs)
         | Failed msg \<Rightarrow> (Inl (Error (''import_runs insert failed: '' @ msg)), snd rs)
         | Done ident \<Rightarrow> (Inr ident, snd rs))"

definition updateImportRun :: "string \<Rightarrow> run_update \<Rightarrow> store \<Rightarrow> (error + unit) \<times> store" where
  "updateImportRun runId payload st =
     (let rs = store_call (RunUpdate runId payload) st
      in case fst rs of
           Rejected msg \<Rightarrow> (Inl (Error msg), snd rs)
         | Failed msg \<Rightarrow> (Inl (Error (''import_runs update failed: '' @ msg)), snd rs)
         | Done ident \<Rightarrow> (Inr (), (snd rs)\<lparr>run_updates := run_updates (snd rs) @ [payload]\<rparr>))"

text \<open>
  The loop of \<open>batchInsert\<close>, from index \<open>i\<close>. With a batch size of 0 the index never
  moves and the loop does not end: the result is \<open>None\<close>.
\<close>

partial_function (option) batchInsert_from ::
  "nat \<Rightarrow> string \<Rightarrow> table_row list \<Rightarrow> nat \<Rightarrow> ImportStats \<Rightarrow> store
     \<Rightarrow> ((error + ImportStats) \<times> store) option"
  where
  "batchInsert_from bs table rows i stats st =
     (if i < length rows then
        (let chunk = take bs (drop i rows);
             rs = store_call (RowsInsert table chunk) st
         in case fst rs of
              Rejected msg \<Rightarrow> Some (Inl (Error msg), snd rs)
            | Failed msg \<Rightarrow>
                batchInsert_from bs table rows (i + bs)
                  (stats\<lparr>rowErrors := rowErrors stats + length chunk,
                         errors := errors stats @ [table @ '': '' @ msg]\<rparr>) (snd rs)
            | Done ident \<Rightarrow>
                batchInsert_from bs table rows (i + bs)
                  (stats\<lparr>rowsInserted := rowsInserted stats + length chunk\<rparr>) (snd rs))
      else Some (Inr stats, st))"

definition batchInsert ::
  "nat \<Rightarrow> string \<Rightarrow> table_row list \<Rightarrow> ImportStats \<Rightarrow> store
     \<Rightarrow> ((error + ImportStats) \<times> store) option" where
  "batchInsert bs table rows stats st = batchInsert_from bs table rows 0 stats st"

definition upsertCompetitors :: "string \<Rightarrow> string list \<Rightarrow> store \<Rightarrow> (error + unit) \<times> store" where
  "upsertCompetitors hotelFk comps st =
     (if comps = [] then (Inr (), st)
      else (let rs = store_call (CompetitorUpsert comps) st
            in case fst rs of
                 Rejected msg \<Rightarrow> (Inl (Error msg), snd rs)
               | _ \<Rightarrow> (Inr (), snd rs)))"

text \<open>Sequencing of two awaited steps: a step that does not return or that throws ends
  the sequence.\<close>

definition then_eff ::
  "((error + 'a) \<times> store) option \<Rightarrow> ('a \<Rightarrow> store \<Rightarrow> ((error + 'b) \<times> store) option)
     \<Rightarrow> ((error + 'b) \<times> store) option" where
  "then_eff m f =
     (case m of
        None \<Rightarrow> None
      | Some r \<Rightarrow> (case fst r of Inl e \<Rightarrow> Some (Inl e, snd r) | Inr x \<Rightarrow> f x (snd r)))"

text \<open>\<open>stats.rowsSkipped += s.rowsSkipped; stats.rowsCoerced += s.rowsCoerced\<close>\<close>

definition add_norm_stats :: "ImportStats \<Rightarrow> nat \<Rightarrow> nat \<Rightarrow> ImportStats" where
  "add_norm_stats stats skipped coerced =
     stats\<lparr>rowsSkipped := rowsSkipped stats + skipped, rowsCoerced := rowsCoerced stats + coerced\<rparr>"

text \<open>The five batch inserts of the \<open>booking_lowest\<close> case, in the order of the source.\<close>

definition booking_inserts ::
  "nat \<Rightarrow> booking_result \<Rightarrow> ImportStats \<Rightarrow> store \<Rightarrow> ((error + ImportStats) \<times> store) option"
  where
  "booking_inserts bs result stats st =
     then_eff (batchInsert bs ''booking_apercu''
                 (map Row_booking_apercu (bookingApercu result)) stats st)
     (\<lambda>stats st.
     then_eff (batchInsert bs ''booking_tarifs_market''
                 (map Row_booking_tarifs_market (bookingTarifsMarket result)) stats st)
     (\<lambda>stats st.
     then_eff (batchInsert bs ''booking_tarifs_competitors''
                 (map Row_booking_tarifs_competitors (bookingTarifsCompetitors result)) stats st)
     (\<lambda>stats st.
     then_eff (batchInsert bs ''booking_vs_market''
                 (map Row_booking_vs_market (bookingVsMarket result)) stats st)
     (\<lambda>stats st.
     batchInsert bs ''booking_vs_competitors''
       (map Row_booking_vs_competitors (bookingVsCompetitors result)) stats st))))"

text \<open>The \<open>switch\<close> on the template name, inside the \<open>try\<close> block.\<close>

definition dispatch ::
  "host \<Rightarrow> run_env \<Rightarrow> string \<Rightarrow> ImportStats \<Rightarrow> store \<Rightarrow> ((error + ImportStats) \<times> store) option"
  where
  "dispatch h env hotelFk stats st =
     (let bs = batchSize env; template = opt_template env
      in if template = ''planning'' then
           (case readFile env of
              Inl e \<Rightarrow> Some (Inl e, st)
            | Inr wb \<Rightarrow>
               (case planningNormalizer h wb hotelFk of
                  Inl e \<Rightarrow> Some (Inl e, st)
                | Inr res \<Rightarrow>
                   then_eff (batchInsert bs ''planning_tarifs''
                               (map Row_planning_tarifs (planningTarifs res)) stats st)
                   (\<lambda>stats st.
                   then_eff (batchInsert bs ''disponibilites''
                               (map Row_disponibilites (disponibilites res)) stats st)
                   (\<lambda>stats st.
                   Some (Inr (add_norm_stats stats (rowsSkipped res) (rowsCoerced res)), st)))))
         else if template = ''booking_lowest'' then
           (case readFile env of
              Inl e \<Rightarrow> Some (Inl e, st)
            | Inr wb \<Rightarrow>
               (let result = bookingLowestNormalizer h (updateAnchor env) wb hotelFk
                in then_eff (booking_inserts bs result stats st)
                   (\<lambda>stats st.
                   (let r = upsertCompetitors hotelFk (competitors result) st
                    in case fst r of
                         Inl e \<Rightarrow> Some (Inl e, snd r)
                       | Inr u \<Rightarrow>
                           Some (Inr (add_norm_stats stats (rowsSkipped result)
                                        (rowsCoerced result)), snd r)))))
         else if template = ''booking_export'' then
           (case readFile env of
              Inl e \<Rightarrow> Some (Inl e, st)
            | Inr wb \<Rightarrow>
               (case bookingExportNormalizer h wb hotelFk of
                  Inl e \<Rightarrow> Some (Inl e, st)
                | Inr res \<Rightarrow>
                   then_eff (batchInsert bs ''booking_export''
                               (map Row_booking_export (bookingExport res)) stats st)
                   (\<lambda>stats st.
                   Some (Inr (add_norm_stats stats (rowsSkipped res) (rowsCoerced res)), st))))
         else if template = ''events'' then
           (case readFile env of
              Inl e \<Rightarrow> Some (Inl e, st)
            | Inr wb \<Rightarrow>
               (case eventsNormalizer h wb hotelFk of
                  Inl e \<Rightarrow> Some (Inl e, st)
                | Inr res \<Rightarrow>
                   then_eff (batchInsert bs ''events_calendar''
                               (map Row_events_calendar (events res)) stats st)
                   (\<lambda>stats st.
                   Some (Inr (add_norm_stats stats (rowsSkipped res) (rowsCoerced res)), st))))
         else Some (Inl (Error (''Unknown template: '' @ template)), st))"

text \<open>
  \<open>a / b\<close> on two counts: the quotient of two integers below \<open>2^53\<close> (\<open>b\<close> positive)
  is the double nearest to the exact quotient, ties going to the even significand. With \<open>e\<close>
  the binary exponent of the quotient (\<open>2^e \<le> a / b < 2^(e+1)\<close>), the doubles around it
  are the multiples of \<open>2^(e-52)\<close>. The result is given by its exact value.
\<close>

fun bit_length :: "nat \<Rightarrow> nat" where
  "bit_length n = (if n = 0 then 0 else Suc (bit_length (n div 2)))"

declare bit_length.simps [simp del]

definition pow2 :: "int \<Rightarrow> rat" where
  "pow2 e = (if 0 \<le> e then 2 ^ nat e else 1 / 2 ^ nat (- e))"

definition round_half_even :: "nat \<Rightarrow> nat \<Rightarrow> nat" where
  "round_half_even n d =
     (let q = n div d; r = n mod d
      in if 2 * r < d then q else if d < 2 * r then q + 1 else if even q then q else q + 1)"

definition double_quotient :: "nat \<Rightarrow> nat \<Rightarrow> rat" where
  "double_quotient a b =
     (if a = 0 then 0
      else (let e0 = int (bit_length a) - int (bit_length b);
                e = (if pow2 e0 * of_nat b \<le> of_nat a then e0 else e0 - 1);
                k = 52 - e;
                m = (if 0 \<le> k then round_half_even (a * 2 ^ nat k) b
                     else round_half_even a (b * 2 ^ nat (- k)))
            in of_nat m * pow2 (- k)))"

text \<open>\<open>errorRate > errorRateThreshold\<close> on the values of the two doubles; a comparison
  with \<open>NaN\<close> is false.\<close>

fun exceeds :: "rat \<Rightarrow> jsnum \<Rightarrow> bool" where
  "exceeds r (Fin t) = (r > t)"
| "exceeds r NaN = False"
| "exceeds r PosInf = False"
| "exceeds r NegInf = True"

definition errorRate_of :: "ImportStats \<Rightarrow> rat" where
  "errorRate_of stats =
     (let totalRows = rowsInserted stats + rowErrors stats
      in if totalRows = 0 then 0 else double_quotient (rowErrors stats) totalRows)"

definition status_of :: "jsnum \<Rightarrow> ImportStats \<Rightarrow> string" where
  "status_of threshold stats =
     (if exceeds (errorRate_of stats) threshold then ''failed'' else ''success'')"

text \<open>\<open>errors.join('; ')\<close>\<close>

fun join :: "string list \<Rightarrow> string" where
  "join [] = []"
| "join [x] = x"
| "join (x # y # ys) = x @ ''; '' @ join (y # ys)"

text \<open>The summary printed once the run record is closed.\<close>

record summary =
  s_status :: string
  s_rows_inserted :: nat
  s_rows_skipped :: nat
  s_rows_coerced :: nat
  s_row_errors :: nat
  s_error_rate :: rat

definition success_update :: "run_env \<Rightarrow> ImportStats \<Rightarrow> run_update" where
  "success_update env stats =
     \<lparr>u_status = status_of (errorRateThreshold env) stats,
      u_finished_at = now env,
      u_error_message = (if errors stats \<noteq> [] then Some (join (errors stats)) else None),
      u_meta = MetaCounts (rowsInserted stats) (rowsSkipped stats) (rowsCoerced stats)
                 (rowErrors stats) (errorRate_of stats) (errors stats)\<rparr>"

definition failure_update :: "run_env \<Rightarrow> string \<Rightarrow> run_update" where
  "failure_update env message =
     \<lparr>u_status = ''failed'', u_finished_at = now env, u_error_message = Some message,
      u_meta = MetaErrors [message]\<rparr>"

definition summary_of :: "run_env \<Rightarrow> ImportStats \<Rightarrow> summary" where
  "summary_of env stats =
     \<lparr>s_status = status_of (errorRateThreshold env) stats,
      s_rows_inserted = rowsInserted stats, s_rows_skipped = rowsSkipped stats,
      s_rows_coerced = rowsCoerced stats, s_row_errors = rowErrors stats,
      s_error_rate = errorRate_of stats\<rparr>"

text \<open>The defaults of the two environment settings: \<open>500\<close>, and the double that the
  literal \<open>0.05\<close> denotes.\<close>

definition default_batchSize :: nat where
  "default_batchSize = 500"

definition default_errorRateThreshold :: jsnum where
  "default_errorRateThreshold = Fin (3602879701896397 / 2 ^ 56)"

definition initial_stats :: ImportStats where
  "initial_stats = \<lparr>rowsSkipped = 0, rowsCoerced = 0, rowsInserted = 0, rowErrors = 0, errors = []\<rparr>"

text \<open>The body of the \<open>try\<close> block: dispatch, status computation, closing update.\<close>

definition run_try ::
  "host \<Rightarrow> run_env \<Rightarrow> string \<Rightarrow> string \<Rightarrow> store \<Rightarrow> ((error + summary) \<times> store) option" where
  "run_try h env hotelFk runId st =
     then_eff (dispatch h env hotelFk initial_stats st)
       (\<lambda>stats st.
          (let r = updateImportRun runId (success_update env stats) st
           in case fst r of
                Inl e \<Rightarrow> Some (Inl e, snd r)
              | Inr u \<Rightarrow> Some (Inr (summary_of env stats), snd r)))"

text \<open>The \<open>catch\<close> block: close the run record as failed, then throw the error again.
  An error of the closing update itself replaces it.\<close>

definition run_catch ::
  "run_env \<Rightarrow> string \<Rightarrow> error \<Rightarrow> store \<Rightarrow> (error + summary) \<times> store" where
  "run_catch env runId err st =
     (let message = (case err of Error m \<Rightarrow> m);
          r = updateImportRun runId (failure_update env message) st
      in case fst r of
           Inl e \<Rightarrow> (Inl e, snd r)
         | Inr u \<Rightarrow> (Inl err, snd r))"

text \<open>\<open>run()\<close>: \<open>None\<close> when it does not return, \<open>Inl\<close> the error it throws,
  \<open>Inr\<close> the summary it prints.\<close>

definition run :: "host \<Rightarrow> run_env \<Rightarrow> store \<Rightarrow> ((error + summary) \<times> store) option" where
  "run h env st =
     (let r1 = upsertHotel (opt_hotel_id env) (opt_hotel_name env) st
      in case fst r1 of
           Inl e \<Rightarrow> Some (Inl e, snd r1)
         | Inr hotelFk \<Rightarrow>
            (let r2 = createImportRun hotelFk (opt_template env) (opt_file env) (snd r1)
             in case fst r2 of
                  Inl e \<Rightarrow> Some (Inl e, snd r2)
                | Inr runId \<Rightarrow>
                   (case run_try h env hotelFk runId (snd r2) of
                      None \<Rightarrow> None
                    | Some r3 \<Rightarrow>
                       (case fst r3 of
                          Inr s \<Rightarrow> Some (Inr s, snd r3)
                        | Inl err \<Rightarrow> Some (run_catch env runId err (snd r3))))))"

section \<open>Concrete worksheets\<close>

text \<open>The worksheet whose rows are the given lists of raw cell values, from row 1 and
  column 1 on.\<close>

definition sheet_of_rows :: "jsval list list \<Rightarrow> worksheet" where
  "sheet_of_rows rows =
     \<lparr>rowCount = length rows,
      columnCount = foldr (\<lambda>r m. max (length r) m) rows 0,
      cell = (\<lambda>r c. if 1 \<le> r \<and> r \<le> length rows \<and> 1 \<le> c \<and> c \<le> length (rows ! (r - 1))
                     then rows ! (r - 1) ! (c - 1) else Null)\<rparr>"

section \<open>A reference host\<close>

text \<open>
  A concrete host on which the functions above can be run. It follows the documented
  behaviour of luxon on the formats the repository uses: a format token \<open>dd\<close>,
  \<open>MM\<close>, \<open>HH\<close>, \<open>mm\<close> or \<open>ss\<close> takes exactly two digits, \<open>yyyy\<close> exactly four,
  \<open>yy\<close> two to four (a two-digit year above 60 is in the 1900s, another one in the
  2000s); the whole text must match; the date must exist. Of the ISO forms it knows
  the calendar date \<open>YYYY-MM-DD\<close>, alone or followed by \<open>T\<close> and a time; no ISO form
  contains a slash. The zone of the process is UTC and years lie between 0 and 9999.
  Numbers are rendered as JavaScript does when their decimal expansion ends within
  twenty places.
\<close>

definition leap_year :: "nat \<Rightarrow> bool" where
  "leap_year y = (y mod 4 = 0 \<and> (y mod 100 \<noteq> 0 \<or> y mod 400 = 0))"

definition days_in_month :: "nat \<Rightarrow> nat \<Rightarrow> nat" where
  "days_in_month y m =
     (if m = 2 then (if leap_year y then 29 else 28)
      else if m = 4 \<or> m = 6 \<or> m = 9 \<or> m = 11 then 30 else 31)"

definition digit_char :: "nat \<Rightarrow> char" where
  "digit_char n = ''0123456789'' ! (n mod 10)"

definition pad2 :: "nat \<Rightarrow> string" where
  "pad2 n = [digit_char (n div 10), digit_char n]"

definition pad4 :: "nat \<Rightarrow> string" where
  "pad4 n = [digit_char (n div 1000), digit_char (n div 100), digit_char (n div 10), digit_char n]"

definition iso_of :: "nat \<Rightarrow> nat \<Rightarrow> nat \<Rightarrow> string" where
  "iso_of y m d = pad4 y @ ''-'' @ pad2 m @ ''-'' @ pad2 d"

definition hms_of :: "nat \<Rightarrow> nat \<Rightarrow> nat \<Rightarrow> string" where
  "hms_of hh mi ss = pad2 hh @ '':'' @ pad2 mi @ '':'' @ pad2 ss"

definition digits_n :: "nat \<Rightarrow> string \<Rightarrow> bool" where
  "digits_n n s = (length s = n \<and> list_all is_digit s)"

text \<open>\<open>s.split(c)\<close>\<close>

fun split_on :: "char \<Rightarrow> string \<Rightarrow> string list" where
  "split_on c [] = [[]]"
| "split_on c (x # xs) =
     (case split_on c xs of
        [] \<Rightarrow> [[x]]
      | p # ps \<Rightarrow> if x = c then [] # p # ps else (x # p) # ps)"

definition untruncateYear :: "nat \<Rightarrow> nat" where
  "untruncateYear y = (if y > 99 then y else if y > 60 then 1900 + y else 2000 + y)"

definition ref_time :: "string \<Rightarrow> (nat \<times> nat \<times> nat) option" where
  "ref_time t =
     (case split_on (CHR '':'') t of
        [hh, mi] \<Rightarrow>
          if digits_n 2 hh \<and> digits_n 2 mi \<and> digits_value hh < 24 \<and> digits_value mi < 60
          then Some (digits_value hh, digits_value mi, 0) else None
      | [hh, mi, ss] \<Rightarrow>
          if digits_n 2 hh \<and> digits_n 2 mi \<and> digits_n 2 ss
             \<and> digits_value hh < 24 \<and> digits_value mi < 60 \<and> digits_value ss < 60
          then Some (digits_value hh, digits_value mi, digits_value ss) else None
      | _ \<Rightarrow> None)"

definition ref_civil :: "nat \<Rightarrow> nat \<Rightarrow> nat \<Rightarrow> nat \<times> nat \<times> nat \<Rightarrow> DateTime" where
  "ref_civil y m d t =
     (if 1 \<le> m \<and> m \<le> 12 \<and> 1 \<le> d \<and> d \<le> days_in_month y m
      then ValidDateTime (iso_of y m d) (hms_of (fst t) (fst (snd t)) (snd (snd t)))
      else InvalidDateTime)"

definition ref_dmy :: "bool \<Rightarrow> string \<Rightarrow> nat \<times> nat \<times> nat \<Rightarrow> DateTime" where
  "ref_dmy short text t =
     (case split_on (CHR ''/'') text of
        [dd, mm, yy] \<Rightarrow>
          if digits_n 2 dd \<and> digits_n 2 mm \<and> list_all is_digit yy
             \<and> (if short then 2 \<le> length yy \<and> length yy \<le> 4 else length yy = 4)
          then ref_civil (if short then untruncateYear (digits_value yy) else digits_value yy)
                 (digits_value mm) (digits_value dd) t
          else InvalidDateTime
      | _ \<Rightarrow> InvalidDateTime)"

definition ref_dmy_time :: "nat \<Rightarrow> string \<Rightarrow> DateTime" where
  "ref_dmy_time parts text =
     (case split_on (CHR 0x20) text of
        [d, t] \<Rightarrow>
          (case ref_time t of
             None \<Rightarrow> InvalidDateTime
           | Some tm \<Rightarrow>
               if length (split_on (CHR '':'') t) = parts then ref_dmy False d tm
               else InvalidDateTime)
      | _ \<Rightarrow> InvalidDateTime)"

definition ref_fromFormat :: "string \<Rightarrow> string \<Rightarrow> bool \<Rightarrow> DateTime" where
  "ref_fromFormat text fmt utc =
     (if fmt = ''dd/MM/yyyy'' then ref_dmy False text (0, 0, 0)
      else if fmt = ''dd/MM/yy'' then ref_dmy True text (0, 0, 0)
      else if fmt = ''dd/MM/yyyy HH:mm'' then ref_dmy_time 2 text
      else if fmt = ''dd/MM/yyyy HH:mm:ss'' then ref_dmy_time 3 text
      else InvalidDateTime)"

definition ref_ymd :: "string \<Rightarrow> nat \<times> nat \<times> nat \<Rightarrow> DateTime" where
  "ref_ymd text t =
     (case split_on (CHR ''-'') text of
        [yy, mm, dd] \<Rightarrow>
          if digits_n 4 yy \<and> digits_n 2 mm \<and> digits_n 2 dd
          then ref_civil (digits_value yy) (digits_value mm) (digits_value dd) t
          else InvalidDateTime
      | _ \<Rightarrow> InvalidDateTime)"

definition ref_fromISO :: "string \<Rightarrow> DateTime" where
  "ref_fromISO text =
     (case split_on (CHR ''T'') text of
        [d] \<Rightarrow> ref_ymd d (0, 0, 0)
      | [d, t] \<Rightarrow> (case ref_time t of None \<Rightarrow> InvalidDateTime | Some tm \<Rightarrow> ref_ymd d tm)
      | _ \<Rightarrow> InvalidDateTime)"

text \<open>The civil date of a day number counted from 1970-01-01.\<close>

definition civil_yoe :: "int \<Rightarrow> int" where
  "civil_yoe doe = (doe - doe div 1460 + doe div 36524 - doe div 146096) div 365"

definition civil_doy :: "int \<Rightarrow> int \<Rightarrow> int" where
  "civil_doy doe yoe = doe - (365 * yoe + yoe div 4 - yoe div 100)"

definition civil_month :: "int \<Rightarrow> int" where
  "civil_month mp = (if mp < 10 then mp + 3 else mp - 9)"

definition civil_ymd :: "int \<Rightarrow> int \<Rightarrow> int \<Rightarrow> int \<Rightarrow> int \<times> int \<times> int" where
  "civil_ymd era yoe doy mp =
     (yoe + era * 400 + (if civil_month mp \<le> 2 then 1 else 0), civil_month mp,
      doy - (153 * mp + 2) div 5 + 1)"

definition civil_from_doe :: "int \<Rightarrow> int \<Rightarrow> int \<times> int \<times> int" where
  "civil_from_doe era doe =
     civil_ymd era (civil_yoe doe) (civil_doy doe (civil_yoe doe))
       ((5 * civil_doy doe (civil_yoe doe) + 2) div 153)"

definition civil_from_days :: "int \<Rightarrow> int \<times> int \<times> int" where
  "civil_from_days days = civil_from_doe ((days + 719468) div 146097) ((days + 719468) mod 146097)"

definition ref_fromJSDate :: "int option \<Rightarrow> DateTime" where
  "ref_fromJSDate t =
     (case t of
        None \<Rightarrow> InvalidDateTime
      | Some ms \<Rightarrow>
          (let ymd = civil_from_days (ms div 86400000);
               secs = nat ((ms mod 86400000) div 1000)
           in ValidDateTime
                (iso_of (nat (fst ymd)) (nat (fst (snd ymd))) (nat (snd (snd ymd))))
                (hms_of (secs div 3600) ((secs div 60) mod 60) (secs mod 60))))"

fun show_nat_fuel :: "nat \<Rightarrow> nat \<Rightarrow> string" where
  "show_nat_fuel 0 n = [digit_char n]"
| "show_nat_fuel (Suc f) n = (if n < 10 then [digit_char n] else show_nat_fuel f (n div 10) @ [digit_char n])"

definition show_nat :: "nat \<Rightarrow> string" where
  "show_nat n = show_nat_fuel n n"

text \<open>The least number of decimal places, up to \<open>k\<close>, after which \<open>q\<close> is whole.\<close>

fun decimal_places :: "nat \<Rightarrow> rat \<Rightarrow> nat" where
  "decimal_places 0 q = 0"
| "decimal_places (Suc k) q = (if q = of_int \<lfloor>q\<rfloor> then 0 else Suc (decimal_places k (q * 10)))"

definition ref_numberToString :: "rat \<Rightarrow> string" where
  "ref_numberToString q =
     (let a = \<bar>q\<bar>;
          k = decimal_places 20 a;
          scaled = nat \<lfloor>a * 10 ^ k\<rfloor>;
          ip = show_nat (scaled div 10 ^ k);
          fr = show_nat (scaled mod 10 ^ k);
          fp = replicate (k - length fr) (CHR ''0'') @ fr
      in (if q < 0 then ''-'' else []) @ ip @ (if k = 0 then [] else ''.'' @ fp))"

definition ref_dateToString :: "int option \<Rightarrow> string" where
  "ref_dateToString t =
     (case t of None \<Rightarrow> ''Invalid Date'' | Some ms \<Rightarrow> isoDate (ref_fromJSDate (Some ms)))"

definition ref_host :: host where
  "ref_host = \<lparr>numberToString = ref_numberToString, dateToString = ref_dateToString,
                fromJSDate = ref_fromJSDate, fromFormat = ref_fromFormat, fromISO = ref_fromISO\<rparr>"

section \<open>The batches of a batch insert\<close>




definition is_rejected :: "reply \<Rightarrow> bool" where
  "is_rejected r = (case r of Rejected m \<Rightarrow> True | _ \<Rightarrow> False)"




definition after_calls :: "store \<Rightarrow> call list \<Rightarrow> store" where
  "after_calls st cs = st\<lparr>script := drop (length cs) (script st), calls := calls st @ cs\<rparr>"


section \<open>The separator rule as the specification words it\<close>

text \<open>
  Following the spec's words: the later-occurring separator is the decimal point and the
  earlier ones are stripped as thousands grouping. \<open>decimal_first\<close> works on the
  reversed string: the first separator it meets becomes the point, every further one
  is dropped. \<open>later_separator\<close> is the separator character (\<open>,\<close> or
  \<open>.\<close>) that occurs last, read as \<open>parseNumeric\<close> compares the two positions.
\<close>

definition is_separator :: "char \<Rightarrow> bool" where
  "is_separator c = (c = CHR '','' \<or> c = CHR ''.'')"

fun decimal_first :: "string \<Rightarrow> string" where
  "decimal_first [] = []"
| "decimal_first (c # cs) =
     (if is_separator c then CHR ''.'' # filter (\<lambda>x. \<not> is_separator x) cs
      else c # decimal_first cs)"

definition spec_separators :: "string \<Rightarrow> string" where
  "spec_separators s = rev (decimal_first (rev s))"

definition later_separator :: "string \<Rightarrow> char" where
  "later_separator s =
     (if lastIndexOf (CHR '','') s > lastIndexOf (CHR ''.'') s then CHR '','' else CHR ''.'')"

definition opened :: "run_env \<Rightarrow> string \<Rightarrow> store \<Rightarrow> store" where
  "opened env hotelFk st =
     after_calls st
       [HotelUpsert (opt_hotel_id env)
          (case opt_hotel_name env of None \<Rightarrow> opt_hotel_id env | Some n \<Rightarrow> n),
        RunInsert hotelFk (opt_file env) (opt_template env)]"

definition env_unknown :: run_env where
  "env_unknown =
     \<lparr>opt_file = ''report.xlsx'', opt_template = ''nope'', opt_hotel_id = ''H2258'',
      opt_hotel_name = None, batchSize = default_batchSize,
      errorRateThreshold = default_errorRateThreshold,
      readFile = Inl (Error ''unreadable''), updateAnchor = (\<lambda>ws. None),
      now = ''2026-01-16T08:00:00.000Z''\<rparr>"

definition store_down :: store where
  "store_down = \<lparr>script = [Done ''h1'', Done ''r1'', Failed ''down''], calls = [], run_updates = []\<rparr>"

definition store_up :: store where
  "store_up = \<lparr>script = [Done ''h1'', Done ''r1''], calls = [], run_updates = []\<rparr>"

definition fair :: EventRow where
  "fair = \<lparr>ev_hotel_fk = ''h1'', ev_Evenement = Some ''Foire'', ev_Debut = Some ''2026-02-01'',
           ev_Fin = Some ''2026-02-03'', ev_Indice = None, ev_Multiplicateur = Some (3 / 2),
           ev_Pourquoi = None, ev_Conseils = None\<rparr>"

definition salon :: EventRow where
  "salon = \<lparr>ev_hotel_fk = ''h1'', ev_Evenement = Some ''Salon'', ev_Debut = Some ''2026-01-16'',
           ev_Fin = Some ''2026-01-17'', ev_Indice = None, ev_Multiplicateur = None,
           ev_Pourquoi = None, ev_Conseils = None\<rparr>"

definition events_book :: workbook where
  "events_book = \<lparr>worksheets = [(''Events'', sheet_of_rows
     [[Str col_Evenement, Str col_Debut, Str ''Fin'', Str ''Multiplicateur''],
      [Str ''Salon'', Str ''16/01/2026'', Str ''2026-01-17'', Str ''abc''],
      [Null, Null, Str ''  '', Null],
      [Str ''Foire'', Str ''2026-02-01'', Str ''03/02/2026'', Str ''1,5'']])]\<rparr>"

definition env_events :: run_env where
  "env_events =
     \<lparr>opt_file = ''events.xlsx'', opt_template = ''events'', opt_hotel_id = ''H2258'',
      opt_hotel_name = None, batchSize = 1, errorRateThreshold = Fin (5 / 8),
      readFile = Inr events_book, updateAnchor = (\<lambda>ws. None),
      now = ''2026-01-16T08:00:00.000Z''\<rparr>"

definition market_row :: BookingTarifsMarketRow where
  "market_row = \<lparr>tm_hotel_fk = ''h1'', tm_date_mise_a_jour = None,
          tm_Jour = Some ''Lun'', tm_Date = Some ''2026-01-16'',
          tm_Demande = 2469 / 2,
          tm_raw_row =
            [(''Jour'', Str ''Lun''), (''Date'', Str ''2026-01-16''),
             (col_Demande, Str ''1 234,50''), (''Hotel Y'', Str ''99,90'')]\<rparr>"

definition competitor_row :: BookingTarifsCompetitorRow where
  "competitor_row = \<lparr>tc_hotel_fk = ''h1'', tc_date_mise_a_jour = None,
          tc_Jour = Some ''Lun'', tc_Date = Some ''2026-01-16'',
          tc_competitor_name = ''Hotel Y'', tc_price = 999 / 10,
          tc_raw_price = Some ''99,90''\<rparr>"

definition tarifs_headers :: "string list" where
  "tarifs_headers = [''Jour'', ''Date'', col_Demande, ''Hotel Y'']"

definition tarifs_ws :: worksheet where
  "tarifs_ws = sheet_of_rows
     [[], [], [], [],
      [Null, Str ''Jour'', Str ''Date'', Str col_Demande, Str ''Hotel Y''],
      [Null, Str ''Lun'', Str ''2026-01-16'', Str ''1 234,50'', Str ''99,90''],
      [Null, Null, Str ''  '', Null, Null],
      [Null, Str ''Mar'', Str ''2026-01-17'', Str ''LOS 2'', Str ''99,90'']]"

definition tarifs_book :: workbook where
  "tarifs_book = \<lparr>worksheets = [(''Tarifs'', tarifs_ws)]\<rparr>"

definition booking_empty :: booking_result where
  "booking_empty = \<lparr>rowsSkipped = 0, rowsCoerced = 0, dateMiseAJour = None, bookingApercu = [],
        bookingTarifsMarket = [], bookingTarifsCompetitors = [],
        bookingVsMarket = [], bookingVsCompetitors = [], competitors = []\<rparr>"

definition booking_one :: booking_result where
  "booking_one = \<lparr>rowsSkipped = 0, rowsCoerced = 0, dateMiseAJour = None, bookingApercu = [],
        bookingTarifsMarket = [market_row], bookingTarifsCompetitors = [competitor_row],
        bookingVsMarket = [], bookingVsCompetitors = [], competitors = [''Hotel Y'']\<rparr>"

definition env_booking :: run_env where
  "env_booking =
     \<lparr>opt_file = ''booking.xlsx'', opt_template = ''booking_lowest'', opt_hotel_id = ''H2258'',
      opt_hotel_name = None, batchSize = default_batchSize,
      errorRateThreshold = default_errorRateThreshold,
      readFile = Inr tarifs_book, updateAnchor = (\<lambda>ws. None),
      now = ''2026-01-16T08:00:00.000Z''\<rparr>"

definition store_competitors_down :: store where
  "store_competitors_down =
     \<lparr>script = [Done [], Done [], Failed ''permission denied''], calls = [], run_updates = []\<rparr>"

definition stats_inserted :: ImportStats where
  "stats_inserted = \<lparr>rowsSkipped = 0, rowsCoerced = 0, rowsInserted = 2, rowErrors = 0, errors = []\<rparr>"

definition store_after_inserts :: store where
  "store_after_inserts =
     \<lparr>script = [Failed ''permission denied''],
      calls = [RowsInsert ''booking_tarifs_market'' [Row_booking_tarifs_market market_row],
               RowsInsert ''booking_tarifs_competitors''
                 [Row_booking_tarifs_competitors competitor_row]],
      run_updates = []\<rparr>"

definition store_events_partial :: store where
  "store_events_partial =
     \<lparr>script = [Done ''h1'', Done ''r1'', Done [], Failed ''boom''], calls = [], run_updates = []\<rparr>"

definition store_events_refused :: store where
  "store_events_refused =
     \<lparr>script = [Done ''h1'', Done ''r1'', Done [], Done [], Failed ''timeout''],
      calls = [], run_updates = []\<rparr>"

section \<open>Properties of the batch insert\<close>

lemmas double_defs = double_quotient_def pow2_def round_half_even_def bit_length.simps Let_def









lemma store_call_run_updates: "run_updates (snd (store_call c st)) = run_updates st"
  by (simp add: store_call_def split: list.splits)

lemma store_call_calls: "calls (snd (store_call c st)) = calls st @ [c]"
  by (simp add: store_call_def split: list.splits)

text \<open>Whatever the batch size and the store's answers, a batch insert that returns has
  not touched the run record.\<close>

lemma batchInsert_from_run_updates:
  assumes "batchInsert_from bs table rows i stats st = Some y"
  shows "run_updates (snd y) = run_updates st"
proof (rule batchInsert_from.raw_induct
    [where P = "\<lambda>bs table rows i stats st y. run_updates (snd y) = run_updates st", OF _ assms])
  fix f :: "nat \<Rightarrow> string \<Rightarrow> table_row list \<Rightarrow> nat \<Rightarrow> ImportStats \<Rightarrow> store
              \<Rightarrow> ((error + ImportStats) \<times> store) option"
  fix bs table rows i stats st y
  assume IH: "\<And>bs table rows i stats st y.
                 f bs table rows i stats st = Some y \<Longrightarrow> run_updates (snd y) = run_updates st"
  assume eq: "(if i < length rows
      then let chunk = take bs (drop i rows);
               rs = store_call (RowsInsert table chunk) st
           in case fst rs of
              Done ident \<Rightarrow>
                f bs table rows (i + bs)
                 (stats\<lparr>rowsInserted := rowsInserted stats + length chunk\<rparr>)
                 (snd rs)
              | Failed msg \<Rightarrow>
                  f bs table rows (i + bs)
                   (stats
                    \<lparr>rowErrors := rowErrors stats + length chunk,
                       errors := errors stats @ [table @ '': '' @ msg]\<rparr>)
                   (snd rs)
              | Rejected msg \<Rightarrow> Some (Inl (Error msg), snd rs)
      else Some (Inr stats, st)) = Some y"
  show "run_updates (snd y) = run_updates st"
  proof (cases "i < length rows")
    case False
    with eq show ?thesis by auto
  next
    case True
    let ?rs = "store_call (RowsInsert table (take bs (drop i rows))) st"
    show ?thesis
    proof (cases "fst ?rs")
      case (Done x)
      with eq True have "f bs table rows (i + bs)
          (stats\<lparr>rowsInserted := rowsInserted stats + length (take bs (drop i rows))\<rparr>)
          (snd ?rs) = Some y"
        by (simp add: Let_def del: length_take)
      from IH [OF this] show ?thesis by (simp add: store_call_run_updates)
    next
      case (Failed m)
      with eq True have "f bs table rows (i + bs)
          (stats\<lparr>rowErrors := rowErrors stats + length (take bs (drop i rows)),
                 errors := errors stats @ [table @ '': '' @ m]\<rparr>) (snd ?rs) = Some y"
        by (simp add: Let_def del: length_take)
      from IH [OF this] show ?thesis by (simp add: store_call_run_updates)
    next
      case (Rejected m)
      with eq True have "y = (Inl (Error m), snd ?rs)"
        by (simp add: Let_def del: length_take)
      then show ?thesis by (simp add: store_call_run_updates)
    qed
  qed
qed

lemma batchInsert_run_updates:
  "batchInsert bs table rows stats st = Some y \<Longrightarrow> run_updates (snd y) = run_updates st"
  unfolding batchInsert_def by (rule batchInsert_from_run_updates)

lemma then_eff_cases:
  assumes "then_eff m f = Some y"
  shows "(\<exists>e st1. m = Some (Inl e, st1) \<and> y = (Inl e, st1))
       \<or> (\<exists>x st1. m = Some (Inr x, st1) \<and> f x st1 = Some y)"
  using assms by (auto simp: then_eff_def split: option.splits sum.splits prod.splits)




section \<open>Properties of numeric normalization\<close>

lemma lastIndexOf_ge: "- 1 \<le> lastIndexOf a s"
  by (induction s) (auto simp: Let_def)

lemma lastIndexOf_neg_iff: "lastIndexOf a s = - 1 \<longleftrightarrow> a \<notin> set s"
proof (induction s)
  case Nil
  show ?case by simp
next
  case (Cons x xs)
  have "- 1 \<le> lastIndexOf a xs" by (rule lastIndexOf_ge)
  with Cons show ?case by (auto simp: Let_def)
qed

lemma lastIndexOf_append_last:
  "a \<notin> set post \<Longrightarrow> lastIndexOf a (pre @ a # post) = int (length pre)"
proof (induction pre)
  case Nil
  then show ?case by (simp add: Let_def lastIndexOf_neg_iff)
next
  case (Cons x pre)
  then show ?case by (simp add: Let_def)
qed

lemma lastIndexOf_later:
  "b \<in> set post \<Longrightarrow> int (length pre) < lastIndexOf b (pre @ a # post)"
proof (induction pre)
  case Nil
  have "lastIndexOf b post \<noteq> - 1" using Nil by (simp add: lastIndexOf_neg_iff)
  moreover have "- 1 \<le> lastIndexOf b post" by (rule lastIndexOf_ge)
  ultimately show ?case by (simp add: Let_def)
next
  case (Cons x pre)
  then have "int (length pre) < lastIndexOf b (pre @ a # post)" by simp
  then show ?case by (auto simp: Let_def)
qed

lemma split_last_occurrence:
  "a \<in> set s \<Longrightarrow> \<exists>pre post. s = pre @ a # post \<and> a \<notin> set post"
  by (metis split_list_last)

lemma count_one_split:
  assumes "count_list (pre @ a # post) a = 1"
  shows "a \<notin> set pre \<and> a \<notin> set post"
  using assms by (auto simp: count_list_0_iff)


lemma dropWhile_Nil_iff: "dropWhile P xs = [] \<longleftrightarrow> list_all P xs"
  by (induction xs) auto

lemma trim_Nil_iff: "trim s = [] \<longleftrightarrow> list_all is_ws s"
proof -
  have "trim s = [] \<longleftrightarrow> list_all is_ws (dropWhile is_ws s)"
    by (simp add: trim_def dropWhile_Nil_iff list_all_iff)
  also have "\<dots> \<longleftrightarrow> dropWhile is_ws s = []"
  proof
    assume a: "list_all is_ws (dropWhile is_ws s)"
    show "dropWhile is_ws s = []"
    proof (rule ccontr)
      assume "dropWhile is_ws s \<noteq> []"
      then have "\<not> is_ws (hd (dropWhile is_ws s))" by (rule hd_dropWhile)
      moreover have "hd (dropWhile is_ws s) \<in> set (dropWhile is_ws s)"
        using \<open>dropWhile is_ws s \<noteq> []\<close> by simp
      ultimately show False using a by (auto simp: list_all_iff)
    qed
  next
    assume b: "dropWhile is_ws s = []"
    show "list_all is_ws (dropWhile is_ws s)" unfolding b by simp
  qed
  finally show ?thesis by (simp add: list_all_iff)
qed

lemma filter_dropWhile_not: "filter (\<lambda>c. \<not> P c) (dropWhile P xs) = filter (\<lambda>c. \<not> P c) xs"
  by (induction xs) auto

lemma remove_ws_trim: "remove_ws (trim s) = remove_ws s"
proof -
  have "remove_ws (trim s) = rev (filter (\<lambda>c. \<not> is_ws c) (dropWhile is_ws (rev (dropWhile is_ws s))))"
    by (simp add: remove_ws_def trim_def rev_filter)
  also have "\<dots> = rev (filter (\<lambda>c. \<not> is_ws c) (rev (dropWhile is_ws s)))"
    by (simp only: filter_dropWhile_not)
  also have "\<dots> = filter (\<lambda>c. \<not> is_ws c) (dropWhile is_ws s)"
    by (simp add: rev_filter)
  also have "\<dots> = remove_ws s"
    by (simp add: remove_ws_def filter_dropWhile_not)
  finally show ?thesis .
qed

lemma remove_ws_nbsp: "remove_ws (nbsp_to_space s) = remove_ws s"
  by (induction s) (auto simp: remove_ws_def nbsp_to_space_def is_ws_def)

lemma all_ws_nbsp: "list_all is_ws (nbsp_to_space s) \<longleftrightarrow> list_all is_ws s"
  by (induction s) (auto simp: nbsp_to_space_def is_ws_def)

lemma remove_ws_Nil_iff: "remove_ws s = [] \<longleftrightarrow> list_all is_ws s"
  by (induction s) (auto simp: remove_ws_def)

lemma parseNumeric_Str:
  "parseNumeric h (Str s) =
     (if remove_ws s = [] then None else parse_normalized (normalize_separators (remove_ws s)))"
  by (simp add: parseNumeric_def Let_def trim_Nil_iff all_ws_nbsp remove_ws_Nil_iff
      remove_ws_trim remove_ws_nbsp)

lemma sep_not_ws: "is_separator c \<Longrightarrow> \<not> is_ws c"
  by (auto simp: is_separator_def is_ws_def)

lemma decimal_first_filter:
  "(\<And>c. is_separator c \<Longrightarrow> P c) \<Longrightarrow> filter P (decimal_first r) = decimal_first (filter P r)"
proof (induction r)
  case Nil
  show ?case by simp
next
  case (Cons c r)
  have dot: "P (CHR ''.'')" using Cons.prems by (simp add: is_separator_def)
  show ?case
  proof (cases "is_separator c")
    case True
    then have "P c" using Cons.prems by simp
    with True dot show ?thesis by (simp add: conj_commute)
  next
    case False
    then show ?thesis using Cons by simp
  qed
qed

lemma remove_ws_spec_separators: "remove_ws (spec_separators s) = spec_separators (remove_ws s)"
proof -
  have "filter (\<lambda>c. \<not> is_ws c) (decimal_first (rev s)) = decimal_first (filter (\<lambda>c. \<not> is_ws c) (rev s))"
    by (rule decimal_first_filter) (simp add: sep_not_ws)
  then show ?thesis
    by (simp add: remove_ws_def spec_separators_def rev_filter [symmetric])
qed


lemma no_sep_decimal_first: "list_all (\<lambda>c. \<not> is_separator c) r \<Longrightarrow> decimal_first r = r"
  by (induction r) auto

lemma decimal_first_append:
  "list_all (\<lambda>c. \<not> is_separator c) pre \<Longrightarrow> is_separator a \<Longrightarrow>
     decimal_first (pre @ a # post) = pre @ CHR ''.'' # filter (\<lambda>x. \<not> is_separator x) post"
  by (induction pre) auto

lemma spec_separators_split:
  assumes "list_all (\<lambda>c. \<not> is_separator c) post" "is_separator a"
  shows "spec_separators (pre @ a # post) = filter (\<lambda>x. \<not> is_separator x) pre @ CHR ''.'' # post"
proof -
  have "rev (pre @ a # post) = rev post @ a # rev pre" by simp
  moreover have "list_all (\<lambda>c. \<not> is_separator c) (rev post)" using assms(1) by (simp add: list_all_iff)
  ultimately have "decimal_first (rev (pre @ a # post)) =
      rev post @ CHR ''.'' # filter (\<lambda>x. \<not> is_separator x) (rev pre)"
    using assms(2) by (simp add: decimal_first_append)
  then show ?thesis by (simp add: spec_separators_def rev_filter)
qed

lemma replace_first_append:
  "c \<notin> set pre \<Longrightarrow> replace_first c d (pre @ c # post) = pre @ d # post"
  by (induction pre) auto


lemma filter_sep_no_comma:
  "CHR '','' \<notin> set xs \<Longrightarrow> filter (\<lambda>x. \<not> is_separator x) xs = remove_all (CHR ''.'') xs"
  by (induction xs) (auto simp: remove_all_def is_separator_def)

lemma filter_sep_no_dot:
  "CHR ''.'' \<notin> set xs \<Longrightarrow> filter (\<lambda>x. \<not> is_separator x) xs = remove_all (CHR '','') xs"
  by (induction xs) (auto simp: remove_all_def is_separator_def)

lemma remove_all_absent: "c \<notin> set xs \<Longrightarrow> remove_all c xs = xs"
  by (induction xs) (auto simp: remove_all_def)

lemma remove_all_append: "remove_all c (xs @ ys) = remove_all c xs @ remove_all c ys"
  by (simp add: remove_all_def)

lemma remove_all_Cons_other: "x \<noteq> c \<Longrightarrow> remove_all c (x # xs) = x # remove_all c xs"
  by (simp add: remove_all_def)

lemma not_in_remove_all: "a \<notin> set xs \<Longrightarrow> a \<notin> set (remove_all c xs)"
  by (simp add: remove_all_def)


lemma normalize_comma_last:
  assumes comma: "CHR '','' \<in> set s"
    and last: "lastIndexOf (CHR '','') s > lastIndexOf (CHR ''.'') s"
    and one: "count_list s (CHR '','') = 1"
  shows "normalize_separators s = spec_separators s"
proof -
  from split_last_occurrence [OF comma]
  obtain pre post where s: "s = pre @ CHR '','' # post" and np: "CHR '','' \<notin> set post"
    by auto
  from one have npre: "CHR '','' \<notin> set pre" unfolding s by (auto simp: count_list_0_iff)
  have li: "lastIndexOf (CHR '','') s = int (length pre)"
    unfolding s using np by (rule lastIndexOf_append_last)
  have nd: "CHR ''.'' \<notin> set post"
  proof
    assume "CHR ''.'' \<in> set post"
    then have "int (length pre) < lastIndexOf (CHR ''.'') s" unfolding s by (rule lastIndexOf_later)
    with last li show False by simp
  qed
  have nosep: "list_all (\<lambda>c. \<not> is_separator c) post"
    using np nd by (auto simp: list_all_iff is_separator_def)
  have "spec_separators (pre @ CHR '','' # post)
          = filter (\<lambda>x. \<not> is_separator x) pre @ CHR ''.'' # post"
    using nosep by (rule spec_separators_split) (simp add: is_separator_def)
  then have spec: "spec_separators s = remove_all (CHR ''.'') pre @ CHR ''.'' # post"
    using npre by (simp add: s filter_sep_no_comma)
  have "remove_all (CHR ''.'') (pre @ CHR '','' # post) = remove_all (CHR ''.'') pre @ CHR '','' # post"
    using nd by (simp add: remove_all_append remove_all_Cons_other remove_all_absent)
  then have ra: "remove_all (CHR ''.'') s = remove_all (CHR ''.'') pre @ CHR '','' # post"
    by (simp add: s)
  have rf: "replace_first (CHR '','') (CHR ''.'') (remove_all (CHR ''.'') pre @ CHR '','' # post)
        = remove_all (CHR ''.'') pre @ CHR ''.'' # post"
    using npre by (intro replace_first_append not_in_remove_all)
  show ?thesis
  proof (cases "CHR ''.'' \<in> set s")
    case True
    have "normalize_separators s = replace_first (CHR '','') (CHR ''.'') (remove_all (CHR ''.'') s)"
      using True comma last by (simp add: normalize_separators_def)
    then show ?thesis by (simp only: ra rf spec)
  next
    case False
    then have "CHR ''.'' \<notin> set pre" by (simp add: s)
    then have p: "remove_all (CHR ''.'') pre = pre" by (rule remove_all_absent)
    have "normalize_separators s = replace_first (CHR '','') (CHR ''.'') s"
      using False comma by (simp add: normalize_separators_def)
    also have "\<dots> = pre @ CHR ''.'' # post"
      unfolding s using npre by (rule replace_first_append)
    finally show ?thesis by (simp only: spec p)
  qed
qed

lemma normalize_dot_last:
  assumes comma: "CHR '','' \<in> set s"
    and last: "\<not> lastIndexOf (CHR '','') s > lastIndexOf (CHR ''.'') s"
    and one: "count_list s (CHR ''.'') = 1"
  shows "normalize_separators s = spec_separators s"
proof -
  have dot: "CHR ''.'' \<in> set s"
  proof (rule ccontr)
    assume "CHR ''.'' \<notin> set s"
    then have "lastIndexOf (CHR ''.'') s = - 1" by (simp add: lastIndexOf_neg_iff)
    moreover have "lastIndexOf (CHR '','') s \<noteq> - 1" using comma by (simp add: lastIndexOf_neg_iff)
    moreover have "- 1 \<le> lastIndexOf (CHR '','') s" by (rule lastIndexOf_ge)
    ultimately show False using last by simp
  qed
  from split_last_occurrence [OF dot]
  obtain pre post where s: "s = pre @ CHR ''.'' # post" and np: "CHR ''.'' \<notin> set post"
    by auto
  from one have npre: "CHR ''.'' \<notin> set pre" unfolding s by (auto simp: count_list_0_iff)
  have li: "lastIndexOf (CHR ''.'') s = int (length pre)"
    unfolding s using np by (rule lastIndexOf_append_last)
  have nc: "CHR '','' \<notin> set post"
  proof
    assume "CHR '','' \<in> set post"
    then have "int (length pre) < lastIndexOf (CHR '','') s" unfolding s by (rule lastIndexOf_later)
    with last li show False by simp
  qed
  have nosep: "list_all (\<lambda>c. \<not> is_separator c) post"
    using np nc by (auto simp: list_all_iff is_separator_def)
  have "spec_separators (pre @ CHR ''.'' # post)
          = filter (\<lambda>x. \<not> is_separator x) pre @ CHR ''.'' # post"
    using nosep by (rule spec_separators_split) (simp add: is_separator_def)
  then have spec: "spec_separators s = remove_all (CHR '','') pre @ CHR ''.'' # post"
    using npre by (simp add: s filter_sep_no_dot)
  have "remove_all (CHR '','') (pre @ CHR ''.'' # post) = remove_all (CHR '','') pre @ CHR ''.'' # post"
    using nc by (simp add: remove_all_append remove_all_Cons_other remove_all_absent)
  then have ra: "remove_all (CHR '','') s = remove_all (CHR '','') pre @ CHR ''.'' # post"
    by (simp add: s)
  have "normalize_separators s = remove_all (CHR '','') s"
    using dot comma last by (simp add: normalize_separators_def)
  then show ?thesis by (simp only: ra spec)
qed

lemma normalize_is_spec:
  assumes "CHR '','' \<in> set s" "count_list s (later_separator s) = 1"
  shows "normalize_separators s = spec_separators s"
proof (cases "lastIndexOf (CHR '','') s > lastIndexOf (CHR ''.'') s")
  case True
  with assms show ?thesis by (simp add: later_separator_def normalize_comma_last)
next
  case False
  with assms show ?thesis by (simp add: later_separator_def normalize_dot_last)
qed

lemma spec_separators_no_comma:
  assumes "CHR '','' \<in> set s"
  shows "CHR '','' \<notin> set (spec_separators s)"
proof -
  have "\<exists>c \<in> set s. is_separator c" using assms by (auto simp: is_separator_def)
  from split_list_last_prop [OF this]
  obtain pre a post where s: "s = pre @ a # post" and a: "is_separator a"
    and post: "\<forall>c \<in> set post. \<not> is_separator c"
    by auto
  have "list_all (\<lambda>c. \<not> is_separator c) post" using post by (simp add: list_all_iff)
  then have "spec_separators (pre @ a # post) = filter (\<lambda>x. \<not> is_separator x) pre @ CHR ''.'' # post"
    using a by (rule spec_separators_split)
  then show ?thesis using post by (auto simp: s is_separator_def)
qed

lemma normalize_no_comma: "CHR '','' \<notin> set s \<Longrightarrow> normalize_separators s = s"
  by (simp add: normalize_separators_def)

lemma remove_ws_keeps: "\<not> is_ws c \<Longrightarrow> c \<in> set (remove_ws s) \<longleftrightarrow> c \<in> set s"
  by (auto simp: remove_ws_def)


lemma filter_sep_Nil_iff:
  "filter is_separator s = [] \<longleftrightarrow> CHR '','' \<notin> set s \<and> CHR ''.'' \<notin> set s"
  by (induction s) (auto simp: is_separator_def)

lemma comma_later_iff:
  "lastIndexOf (CHR '','') s > lastIndexOf (CHR ''.'') s
     \<longleftrightarrow> filter is_separator s \<noteq> [] \<and> last (filter is_separator s) = CHR '',''"
proof (induction s)
  case Nil
  show ?case by simp
next
  case (Cons x xs)
  let ?A = "lastIndexOf (CHR '','') xs" and ?B = "lastIndexOf (CHR ''.'') xs"
  have ge: "- 1 \<le> ?A" "- 1 \<le> ?B" by (rule lastIndexOf_ge)+
  show ?case
  proof (cases "filter is_separator xs = []")
    case True
    then have "?A = - 1" "?B = - 1"
      by (simp_all add: filter_sep_Nil_iff lastIndexOf_neg_iff)
    with True show ?thesis by (auto simp: Let_def is_separator_def [of x])
  next
    case False
    then have l: "last (filter is_separator (x # xs)) = last (filter is_separator xs)"
      and ne: "filter is_separator (x # xs) \<noteq> []" by auto
    from False have "?A \<noteq> - 1 \<or> ?B \<noteq> - 1"
      by (simp add: filter_sep_Nil_iff lastIndexOf_neg_iff)
    then have "lastIndexOf (CHR '','') (x # xs) > lastIndexOf (CHR ''.'') (x # xs) \<longleftrightarrow> ?A > ?B"
      using ge by (auto simp: Let_def)
    with Cons False show ?thesis by (simp only: l ne)
  qed
qed

lemma filter_sep_remove_ws: "filter is_separator (remove_ws s) = filter is_separator s"
  by (induction s) (auto simp: remove_ws_def dest: sep_not_ws)

lemma later_separator_remove_ws: "later_separator (remove_ws s) = later_separator s"
  by (simp add: later_separator_def comma_later_iff filter_sep_remove_ws)

lemma count_list_remove_ws: "\<not> is_ws c \<Longrightarrow> count_list (remove_ws s) c = count_list s c"
  by (induction s) (auto simp: remove_ws_def)

lemma later_separator_not_ws: "\<not> is_ws (later_separator s)"
  by (simp add: later_separator_def is_ws_def)

lemma parseNumeric_spec_separators:
  assumes "CHR '','' \<in> set s" "count_list s (later_separator s) = 1"
  shows "parseNumeric h (Str s) = parseNumeric h (Str (spec_separators s))"
proof -
  let ?c = "remove_ws s"
  have nws: "\<not> is_ws (CHR '','')" by (simp add: is_ws_def)
  have mem: "CHR '','' \<in> set ?c" using assms(1) nws by (simp add: remove_ws_keeps)
  then have ne: "?c \<noteq> []" by auto
  have "count_list ?c (later_separator ?c) = 1"
    using assms(2) by (simp add: later_separator_remove_ws count_list_remove_ws later_separator_not_ws)
  with mem have n: "normalize_separators ?c = spec_separators ?c" by (rule normalize_is_spec)
  have nc: "CHR '','' \<notin> set (spec_separators ?c)" using mem by (rule spec_separators_no_comma)
  have ne2: "spec_separators ?c \<noteq> []"
    using ne by (simp add: spec_separators_def) (cases "rev (remove_ws s)"; simp)
  have "parseNumeric h (Str (spec_separators s)) = parse_normalized (spec_separators ?c)"
    using nc ne2 by (simp add: parseNumeric_Str remove_ws_spec_separators normalize_no_comma)
  moreover have "parseNumeric h (Str s) = parse_normalized (spec_separators ?c)"
    using ne n by (simp add: parseNumeric_Str)
  ultimately show ?thesis by simp
qed

lemmas numeric_defs = parseNumeric_def trim_def is_ws_def nbsp_to_space_def remove_ws_def
  normalize_separators_def remove_all_def parse_normalized_def numeric_char_def is_digit_def
  js_Number_def decimal_value_def digits_value_def double_limit_def digit_value_def

text \<open>
  Claim C2, as amended. \<open>parseNumeric\<close> maps both \<open>1 234,56\<close> and \<open>1,234.56\<close> to
  1234.56. For every string that contains a comma and in which the later-occurring
  separator character occurs exactly once (a comma after every dot, or one dot after
  every comma, or a lone comma), \<open>parseNumeric\<close> gives what it gives on the string
  in which that separator is the decimal point and the earlier separators are removed.
  \<open>parseNumericZero\<close> returns 0 where \<open>parseNumeric\<close> returns null (as on \<open>x\<close>, on
  the empty string and on \<open>n/a\<close>) and the number of \<open>parseNumeric\<close> otherwise.
\<close>

theorem parseNumeric_separators:
  "parseNumeric h (Str ''1 234,56'') = Some (123456 / 100)
   \<and> parseNumeric h (Str ''1,234.56'') = Some (123456 / 100)
   \<and> (CHR '','' \<in> set s \<and> count_list s (later_separator s) = 1 \<longrightarrow>
        parseNumeric h (Str s) = parseNumeric h (Str (spec_separators s)))
   \<and> parseNumericZero h v = (case parseNumeric h v of None \<Rightarrow> 0 | Some q \<Rightarrow> q)
   \<and> parseNumericZero h (Str ''x'') = 0
   \<and> parseNumericZero h (Str []) = 0
   \<and> parseNumericZero h (Str ''n/a'') = 0"
proof (intro conjI impI)
  show "parseNumeric h (Str ''1 234,56'') = Some (123456 / 100)"
    by (simp add: numeric_defs)
  show "parseNumeric h (Str ''1,234.56'') = Some (123456 / 100)"
    by (simp add: numeric_defs)
  show "parseNumeric h (Str s) = parseNumeric h (Str (spec_separators s))"
    if "CHR '','' \<in> set s \<and> count_list s (later_separator s) = 1"
    using that by (simp add: parseNumeric_spec_separators)
  show "parseNumericZero h v = (case parseNumeric h v of None \<Rightarrow> 0 | Some q \<Rightarrow> q)"
    by (simp add: parseNumericZero_def)
  show "parseNumericZero h (Str ''x'') = 0"
    by (simp add: parseNumericZero_def numeric_defs)
  show "parseNumericZero h (Str []) = 0"
    by (simp add: parseNumericZero_def numeric_defs)
  show "parseNumericZero h (Str ''n/a'') = 0"
    by (simp add: parseNumericZero_def numeric_defs)
qed

lemmas sep_defs = spec_separators_def is_separator_def later_separator_def

theorem parseNumeric_separators_witness:
  "CHR '','' \<in> set ''1.234.567,89 EUR''
   \<and> count_list ''1.234.567,89 EUR'' (later_separator ''1.234.567,89 EUR'') = 1
   \<and> spec_separators ''1.234.567,89 EUR'' = ''1234567.89 EUR''
   \<and> parseNumeric ref_host (Str ''1.234.567,89 EUR'') = parseNumeric ref_host (Str ''1234567.89 EUR'')
   \<and> parseNumeric ref_host (Str ''1234567.89 EUR'') = Some (123456789 / 100)"
  using parseNumeric_separators [of ref_host "''1.234.567,89 EUR''" Null]
  by (simp add: sep_defs numeric_defs)

text \<open>
  Claim C2 as stated fails where the later-occurring separator is repeated: in
  \<open>1,2.3,4\<close> the last separator is the second comma, so the claim reads 123.4; the
  code turns the first comma into the point and drops the second: 1.234.
\<close>

theorem parseNumeric_repeated_separator_counterexample:
  "spec_separators ''1,2.3,4'' = ''123.4''
   \<and> parseNumeric ref_host (Str ''123.4'') = Some (1234 / 10)
   \<and> parseNumeric ref_host (Str ''1,2.3,4'') = Some (1234 / 1000)"
  by (simp add: numeric_defs sep_defs)

lemma then_eff_run_updates:
  assumes "then_eff m f = Some y"
    and "\<And>r. m = Some r \<Longrightarrow> run_updates (snd r) = U"
    and "\<And>x st1 y. f x st1 = Some y \<Longrightarrow> run_updates (snd y) = run_updates st1"
  shows "run_updates (snd y) = U"
  using then_eff_cases [OF assms(1)] assms(2,3) by fastforce

lemma booking_inserts_run_updates:
  assumes "booking_inserts bs result stats st = Some y"
  shows "run_updates (snd y) = run_updates st"
  using assms unfolding booking_inserts_def
  by (elim then_eff_run_updates) (auto dest: batchInsert_run_updates)

lemma upsertCompetitors_run_updates:
  "run_updates (snd (upsertCompetitors hotelFk comps st)) = run_updates st"
  by (simp add: upsertCompetitors_def Let_def store_call_run_updates split: reply.splits)

lemma dispatch_run_updates:
  assumes "dispatch h env hotelFk stats st = Some y"
  shows "run_updates (snd y) = run_updates st"
proof -
  have comp: "\<And>result stats' st1 y. (let r = upsertCompetitors hotelFk (competitors result) st1
                    in case fst r of
                         Inl e \<Rightarrow> Some (Inl e, snd r)
                       | Inr u \<Rightarrow>
                           Some (Inr (add_norm_stats stats' (rowsSkipped result)
                                        (rowsCoerced result)), snd r)) = Some y
        \<Longrightarrow> run_updates (snd y) = run_updates st1"
    by (auto simp: Let_def upsertCompetitors_run_updates split: sum.splits)
  show ?thesis
    using assms unfolding dispatch_def Let_def
    by (auto simp: upsertCompetitors_run_updates split: if_splits sum.splits
        elim!: then_eff_run_updates
        dest!: batchInsert_run_updates booking_inserts_run_updates comp)
qed

lemma updateImportRun_cases:
  "(fst (updateImportRun runId p st) = Inr ()
      \<and> run_updates (snd (updateImportRun runId p st)) = run_updates st @ [p])
   \<or> ((\<exists>m. fst (updateImportRun runId p st) = Inl (Error m))
      \<and> run_updates (snd (updateImportRun runId p st)) = run_updates st)"
  by (auto simp: updateImportRun_def Let_def store_call_run_updates split: reply.splits)

lemma updateImportRun_calls:
  "calls (snd (updateImportRun runId p st)) = calls st @ [RunUpdate runId p]"
  by (auto simp: updateImportRun_def Let_def store_call_calls split: reply.splits)

lemma run_try_cases:
  assumes "run_try h env hotelFk runId st = Some (r, st3)"
  shows "(\<exists>stats. r = Inr (summary_of env stats)
            \<and> run_updates st3 = run_updates st @ [success_update env stats])
       \<or> ((\<exists>e. r = Inl e) \<and> run_updates st3 = run_updates st)"
proof -
  from then_eff_cases [OF assms [unfolded run_try_def]]
  show ?thesis
  proof (elim disjE exE conjE)
    fix e st1
    assume "dispatch h env hotelFk initial_stats st = Some (Inl e, st1)" "(r, st3) = (Inl e, st1)"
    then show ?thesis using dispatch_run_updates by fastforce
  next
    fix stats st1
    assume d: "dispatch h env hotelFk initial_stats st = Some (Inr stats, st1)"
      and u: "(let r = updateImportRun runId (success_update env stats) st1
           in case fst r of
                Inl e \<Rightarrow> Some (Inl e, snd r)
              | Inr u \<Rightarrow> Some (Inr (summary_of env stats), snd r)) = Some (r, st3)"
    have ru: "run_updates st1 = run_updates st" using dispatch_run_updates [OF d] by simp
    from updateImportRun_cases [of runId "success_update env stats" st1] u ru
    show ?thesis by (auto simp: Let_def)
  qed
qed

lemma run_opened:
  assumes "script st = Done hotelFk # Done runId # rest"
  shows "run h env st =
     (case run_try h env hotelFk runId (opened env hotelFk st) of
        None \<Rightarrow> None
      | Some r3 \<Rightarrow>
         (case fst r3 of
            Inr s \<Rightarrow> Some (Inr s, snd r3)
          | Inl err \<Rightarrow> Some (run_catch env runId err (snd r3))))"
  using assms
  by (simp add: run_def upsertHotel_def createImportRun_def store_call_def Let_def opened_def
      after_calls_def)

lemma opened_run_updates: "run_updates (opened env hotelFk st) = run_updates st"
  by (simp add: opened_def after_calls_def)

lemma run_catch_cases:
  "calls (snd (run_catch env runId (Error m) st3)) = calls st3 @ [RunUpdate runId (failure_update env m)]
   \<and> ((fst (run_catch env runId (Error m) st3) = Inl (Error m)
        \<and> run_updates (snd (run_catch env runId (Error m) st3))
            = run_updates st3 @ [failure_update env m])
      \<or> ((\<exists>m'. fst (run_catch env runId (Error m) st3) = Inl (Error m'))
        \<and> run_updates (snd (run_catch env runId (Error m) st3)) = run_updates st3))"
  using updateImportRun_cases [of runId "failure_update env m" st3]
    updateImportRun_calls [of runId "failure_update env m" st3]
  by (auto simp: run_catch_def Let_def)

lemmas run_defs = run_def run_try_def run_catch_def dispatch_def upsertHotel_def createImportRun_def
  updateImportRun_def store_call_def then_eff_def failure_update_def Let_def

lemma status_of_failed_iff:
  "status_of th stats = ''failed'' \<longleftrightarrow> exceeds (errorRate_of stats) th"
  by (simp add: status_of_def)

lemma status_of_success_iff:
  "status_of th stats = ''success'' \<longleftrightarrow> \<not> exceeds (errorRate_of stats) th"
  by (simp add: status_of_def)

lemma errorRate_of_eq:
  "errorRate_of stats = (if rowsInserted stats + rowErrors stats = 0 then 0
       else double_quotient (rowErrors stats) (rowsInserted stats + rowErrors stats))"
  by (simp add: errorRate_of_def Let_def)

lemmas str_defs = trim_def is_ws_def is_digit_def digit_value_def digits_value_def

lemmas number_defs = parseNumeric_def nbsp_to_space_def remove_ws_def
  normalize_separators_def remove_all_def parse_normalized_def numeric_char_def
  js_Number_def decimal_value_def double_limit_def parseNumericZero_def

lemmas ref_defs = ref_host_def ref_fromFormat_def ref_fromISO_def ref_dmy_def ref_ymd_def ref_civil_def
  ref_time_def digits_n_def untruncateYear_def days_in_month_def leap_year_def iso_of_def hms_of_def
  pad2_def pad4_def digit_char_def ref_fromJSDate_def civil_from_days_def ref_dmy_time_def
  civil_from_doe_def civil_ymd_def civil_month_def civil_doy_def civil_yoe_def

lemmas date_defs = normalizeDate_text_def logical_or_def object_truthy_def isValid_def toISODate_def
  excelDateToJS_def new_Date_def Math_round_def excelEpoch_def

lemmas grid_defs = is_blank_def isRowEmpty_def readRowValues_def findLastColumn_def header_text_def
  rowMap_of_def obj_get_def has_key_def or_null_def nth_or_undefined_def string_or_null_def
  coercion_lost_def sheet_of_rows_def first_worksheet_def getWorksheet_def

lemmas events_defs = eventsNormalizer_def events_row_def col_Evenement_def col_Debut_def col_Indice_def
  col_Multiplicateur_def

lemma events_book_normalized:
  "eventsNormalizer ref_host events_book ''h1''
     = Inr \<lparr>rowsSkipped = 1, rowsCoerced = 1, events = [salon, fair]\<rparr>"
  by (simp add: events_book_def events_defs grid_defs date_defs ref_defs number_defs str_defs
      Let_def salon_def fair_def)

lemmas booking_defs = bookingLowestNormalizer_def apercu_sheet_def tarifs_sheet_def vs_sheet_def
  vsSheets_def extractHeaders_def tarifs_row_def tarifs_competitor_def apercu_row_def vs_row_def
  vs_competitor_def shouldSkipRow_def rowToObject_def Object_values_def raw_text_def set_add_def
  count_lost_def col_Demande_def col_VotreHotel_def col_mediane_def col_JoursFeries_def
  col_Evenements_def annotation_at_def toLowerCase_def lower_char_def char_of_def bit_0
  reconstructHeaders_def reconstruct_step_def ends_with_def

lemma upsertCompetitors_empty: "upsertCompetitors hotelFk [] st = (Inr (), st)"
  by (simp add: upsertCompetitors_def)

lemma upsertCompetitors_answered:
  assumes "comps \<noteq> []" "script st = r # rest" "\<not> is_rejected r"
  shows "upsertCompetitors hotelFk comps st
           = (Inr (), st\<lparr>script := rest, calls := calls st @ [CompetitorUpsert comps]\<rparr>)"
  using assms
  by (cases r) (simp_all add: upsertCompetitors_def store_call_def Let_def is_rejected_def)

text \<open>
  Claim C9. In a \<open>booking_lowest\<close> run whose five batch inserts returned, the competitor
  upsert makes no store call when no competitor was discovered; otherwise it makes one call,
  and whatever the store answers to it without rejecting (an error object included), the
  dispatch returns the statistics of the inserts with only the normalizer's counters added:
  no row error, no error message, the same status, and nothing raised.
\<close>

theorem competitor_upsert_result_discarded:
  assumes "opt_template env = ''booking_lowest''"
    and "readFile env = Inr wb"
    and "booking_inserts (batchSize env) (bookingLowestNormalizer h (updateAnchor env) wb hotelFk)
           initial_stats st = Some (Inr stats5, st5)"
  shows "let result = bookingLowestNormalizer h (updateAnchor env) wb hotelFk;
             stats' = add_norm_stats stats5 (rowsSkipped result) (rowsCoerced result)
         in (competitors result = [] \<longrightarrow>
               dispatch h env hotelFk initial_stats st = Some (Inr stats', st5))
          \<and> (competitors result \<noteq> [] \<and> script st5 = r # rest \<and> \<not> is_rejected r \<longrightarrow>
               dispatch h env hotelFk initial_stats st
                 = Some (Inr stats',
                         st5\<lparr>script := rest,
                             calls := calls st5 @ [CompetitorUpsert (competitors result)]\<rparr>))
          \<and> rowsInserted stats' = rowsInserted stats5
          \<and> rowErrors stats' = rowErrors stats5
          \<and> errors stats' = errors stats5
          \<and> status_of (errorRateThreshold env) stats' = status_of (errorRateThreshold env) stats5"
proof -
  let ?result = "bookingLowestNormalizer h (updateAnchor env) wb hotelFk"
  let ?stats = "add_norm_stats stats5 (rowsSkipped ?result) (rowsCoerced ?result)"
  have d: "dispatch h env hotelFk initial_stats st =
      (let r = upsertCompetitors hotelFk (competitors ?result) st5
       in case fst r of Inl e \<Rightarrow> Some (Inl e, snd r) | Inr u \<Rightarrow> Some (Inr ?stats, snd r))"
    using assms by (simp add: dispatch_def then_eff_def Let_def split: sum.splits)
  have a: "dispatch h env hotelFk initial_stats st = Some (Inr ?stats, st5)"
    if "competitors ?result = []"
    using that by (simp add: d upsertCompetitors_empty)
  have b: "dispatch h env hotelFk initial_stats st
       = Some (Inr ?stats, st5\<lparr>script := rest,
                                calls := calls st5 @ [CompetitorUpsert (competitors ?result)]\<rparr>)"
    if "competitors ?result \<noteq> [] \<and> script st5 = r # rest \<and> \<not> is_rejected r"
    using that by (simp add: d upsertCompetitors_answered)
  have c: "rowsInserted ?stats = rowsInserted stats5" "rowErrors ?stats = rowErrors stats5"
    "errors ?stats = errors stats5"
    by (simp_all add: add_norm_stats_def)
  have e: "status_of (errorRateThreshold env) ?stats = status_of (errorRateThreshold env) stats5"
    by (simp add: status_of_def errorRate_of_def c)
  show ?thesis
    unfolding Let_def using a b c e by (intro conjI impI)
qed

lemma tarifs_ws_headers: "extractHeaders ref_host tarifs_ws 5 2 False = (tarifs_headers, 5)"
  by (simp add: tarifs_ws_def tarifs_headers_def booking_defs grid_defs str_defs Let_def)

lemma tarifs_ws_rowCount: "rowCount tarifs_ws = 8"
  by (simp add: tarifs_ws_def sheet_of_rows_def)

lemma tarifs_ws_row6: "tarifs_row ref_host tarifs_ws ''h1'' tarifs_headers 5 booking_empty 6 = booking_one"
  by (simp add: tarifs_ws_def tarifs_headers_def booking_defs grid_defs date_defs ref_defs
      number_defs str_defs Let_def market_row_def competitor_row_def booking_empty_def
      booking_one_def)

lemma tarifs_ws_row7: "tarifs_row ref_host tarifs_ws ''h1'' tarifs_headers 5 booking_one 7 = booking_one"
  by (simp add: tarifs_ws_def tarifs_row_def grid_defs str_defs Let_def)

lemma tarifs_ws_row8:
  "tarifs_row ref_host tarifs_ws ''h1'' tarifs_headers 5 booking_one 8
     = booking_one\<lparr>rowsSkipped := 1\<rparr>"
  by (simp add: tarifs_ws_def tarifs_headers_def booking_defs grid_defs date_defs ref_defs
      number_defs str_defs Let_def booking_one_def)

lemma upt_6_9: "[6 ..< Suc 8] = [6, 7, 8]"
  by (simp add: upt_rec)

lemma tarifs_sheet_ex:
  "tarifs_sheet ref_host ''h1'' booking_empty tarifs_ws = booking_one\<lparr>rowsSkipped := 1\<rparr>"
  by (simp add: tarifs_sheet_def Let_def tarifs_ws_headers tarifs_ws_rowCount upt_6_9
      tarifs_ws_row6 tarifs_ws_row7 tarifs_ws_row8)

lemma tarifs_book_normalized:
  "bookingLowestNormalizer ref_host (\<lambda>ws. None) tarifs_book ''h1'' = booking_one\<lparr>rowsSkipped := 1\<rparr>"
  by (simp add: bookingLowestNormalizer_def Let_def getWorksheet_def tarifs_book_def vs_sheet_def
      vsSheets_def tarifs_sheet_ex [unfolded booking_empty_def])

lemma tarifs_book_inserts:
  "booking_inserts 500 (bookingLowestNormalizer ref_host (\<lambda>ws. None) tarifs_book ''h1'')
      initial_stats store_competitors_down = Some (Inr stats_inserted, store_after_inserts)"
  by (simp add: tarifs_book_normalized booking_one_def booking_inserts_def batchInsert_def
      batchInsert_from.simps then_eff_def store_call_def store_competitors_down_def
      initial_stats_def stats_inserted_def store_after_inserts_def Let_def)

text \<open>
  The theorem at a workbook with one competitor column and a store that answers the
  competitor upsert with an error.
\<close>

theorem competitor_upsert_result_discarded_witness:
  "competitors (bookingLowestNormalizer ref_host (\<lambda>ws. None) tarifs_book ''h1'') = [''Hotel Y'']
   \<and> dispatch ref_host env_booking ''h1'' initial_stats store_competitors_down
       = Some (Inr \<lparr>rowsSkipped = 1, rowsCoerced = 0, rowsInserted = 2, rowErrors = 0, errors = []\<rparr>,
               \<lparr>script = [],
                calls = [RowsInsert ''booking_tarifs_market'' [Row_booking_tarifs_market market_row],
                         RowsInsert ''booking_tarifs_competitors''
                           [Row_booking_tarifs_competitors competitor_row],
                         CompetitorUpsert [''Hotel Y'']],
                run_updates = []\<rparr>)
   \<and> status_of default_errorRateThreshold
         \<lparr>rowsSkipped = 1, rowsCoerced = 0, rowsInserted = 2, rowErrors = 0, errors = []\<rparr>
       = ''success''"
proof -
  have env: "opt_template env_booking = ''booking_lowest''" "readFile env_booking = Inr tarifs_book"
    "batchSize env_booking = 500" "updateAnchor env_booking = (\<lambda>ws. None)"
    by (simp_all add: env_booking_def default_batchSize_def)
  have ins: "booking_inserts (batchSize env_booking)
       (bookingLowestNormalizer ref_host (updateAnchor env_booking) tarifs_book ''h1'')
       initial_stats store_competitors_down = Some (Inr stats_inserted, store_after_inserts)"
    by (simp only: env tarifs_book_inserts)
  have st: "status_of default_errorRateThreshold
         \<lparr>rowsSkipped = 1, rowsCoerced = 0, rowsInserted = 2, rowErrors = 0, errors = []\<rparr>
       = ''success''"
    by (simp add: status_of_def errorRate_of_def double_quotient_def
        default_errorRateThreshold_def)
  from competitor_upsert_result_discarded [OF env(1) env(2) ins,
      of "Failed ''permission denied''" "[]"]
  show ?thesis
    using st
    by (simp add: Let_def env tarifs_book_normalized booking_one_def store_after_inserts_def
        stats_inserted_def add_norm_stats_def is_rejected_def)
qed

lemma floor_half: "\<lfloor>(1::rat) / 2\<rfloor> = 0"
  by (simp add: floor_eq_iff)

lemma same_day_representations:
  "normalizeDate ref_host (DateV (Some 1768521600000)) = Some ''2026-01-16''"
  "normalizeDate ref_host (Num (Fin 46038)) = Some ''2026-01-16''"
  "normalizeDate ref_host (Str ''16/01/2026'') = Some ''2026-01-16''"
  "normalizeDate ref_host (Str ''2026-01-16'') = Some ''2026-01-16''"
  "fromFormat ref_host ''16/01/26'' ''dd/MM/yy'' True = ValidDateTime ''2026-01-16'' ''00:00:00''"
  by (simp_all add: date_defs ref_defs str_defs floor_half upt_rec)

text \<open>
  Claim C1. The source writes the two day/month/year patterns as the operands of \<open>||\<close>. The left
  operand is an object, so the right one is never evaluated: a text that the four-digit-year
  pattern and the ISO parser reject normalizes to \<open>null\<close>, whatever the two-digit-year pattern
  would make of it.
\<close>

theorem normalizeDate_two_digit_year_unreached:
  assumes "s \<noteq> []"
    and "fromFormat h (trim s) ''dd/MM/yyyy'' True = InvalidDateTime"
    and "fromISO h (trim s) = InvalidDateTime"
  shows "normalizeDate h (Str s) = None"
  using assms
  by (simp add: normalizeDate_text_def logical_or_def object_truthy_def isValid_def Let_def)

text \<open>
  The theorem at \<open>16/01/26\<close>: the two-digit-year pattern reads it as 16 January 2026, the
  date that the native value, the serial number 46038, \<open>16/01/2026\<close> and \<open>2026-01-16\<close> all
  normalize to, and \<open>normalizeDate\<close> returns \<open>null\<close> for it.
\<close>

theorem normalizeDate_two_digit_year_unreached_witness:
  "normalizeDate ref_host (Str ''16/01/26'') = None
   \<and> fromFormat ref_host ''16/01/26'' ''dd/MM/yy'' True = ValidDateTime ''2026-01-16'' ''00:00:00''
   \<and> normalizeDate ref_host (DateV (Some 1768521600000)) = Some ''2026-01-16''
   \<and> normalizeDate ref_host (Num (Fin 46038)) = Some ''2026-01-16''
   \<and> normalizeDate ref_host (Str ''16/01/2026'') = Some ''2026-01-16''
   \<and> normalizeDate ref_host (Str ''2026-01-16'') = Some ''2026-01-16''"
proof -
  have t: "trim ''16/01/26'' = ''16/01/26''"
    by (simp add: str_defs)
  have a: "fromFormat ref_host (trim ''16/01/26'') ''dd/MM/yyyy'' True = InvalidDateTime"
    unfolding t by (simp add: ref_defs str_defs upt_rec)
  have b: "fromISO ref_host (trim ''16/01/26'') = InvalidDateTime"
    unfolding t by (simp add: ref_defs str_defs upt_rec)
  from normalizeDate_two_digit_year_unreached [OF _ a b] same_day_representations
  show ?thesis by simp
qed

lemma store_call_next: "store_call c st = (next_reply st, after_calls st [c])"
  by (cases "script st") (simp_all add: store_call_def next_reply_def after_calls_def)

lemma updateImportRun_reply:
  "updateImportRun runId p st =
     (case next_reply st of
        Done i \<Rightarrow> (Inr (), (after_calls st [RunUpdate runId p])\<lparr>run_updates := run_updates st @ [p]\<rparr>)
      | Failed msg \<Rightarrow> (Inl (Error (''import_runs update failed: '' @ msg)),
                       after_calls st [RunUpdate runId p])
      | Rejected msg \<Rightarrow> (Inl (Error msg), after_calls st [RunUpdate runId p]))"
  by (simp add: updateImportRun_def store_call_next Let_def after_calls_def split: reply.splits)

lemma run_catch_reply:
  "run_catch env runId (Error m) st =
     (case next_reply st of
        Done i \<Rightarrow> (Inl (Error m),
                   (after_calls st [RunUpdate runId (failure_update env m)])
                     \<lparr>run_updates := run_updates st @ [failure_update env m]\<rparr>)
      | Failed msg \<Rightarrow> (Inl (Error (''import_runs update failed: '' @ msg)),
                       after_calls st [RunUpdate runId (failure_update env m)])
      | Rejected msg \<Rightarrow> (Inl (Error msg), after_calls st [RunUpdate runId (failure_update env m)]))"
  by (simp add: run_catch_def updateImportRun_reply Let_def split: reply.splits)

text \<open>
  Claim C8, as amended. Once the hotel and the run record exist, every run that returns went
  through the \<open>try\<close> block once. When the block returned a summary, the run returns it and the
  run record received exactly one update, of the summary's status and with the finish
  timestamp. When the block raised \<open>m\<close> (in the normalization, a batch insert, the competitor
  upsert or the closing update), the run record had received no update and the handler ran
  once: it sent one update of status \<open>failed\<close> with the message \<open>m\<close> and the finish timestamp.
  When the store accepts that update, it is the only update of the run record and the run
  raises \<open>m\<close> again; when the store answers it with an error, the run raises the error of
  the update instead of \<open>m\<close> and the run record has received no update at all; likewise when
  the call is rejected.
\<close>

theorem run_closes_record:
  assumes "script st = Done hotelFk # Done runId # rest"
    and "run h env st = Some (res, st')"
  shows "\<exists>r3 st3. run_try h env hotelFk runId (opened env hotelFk st) = Some (r3, st3)
      \<and> (case r3 of
           Inr s \<Rightarrow> res = Inr s \<and> st' = st3
               \<and> (\<exists>u. run_updates st' = run_updates st @ [u]
                        \<and> u_status u = s_status s \<and> u_finished_at u = now env)
         | Inl e \<Rightarrow> (case e of Error m \<Rightarrow>
              (let final = \<lparr>u_status = ''failed'', u_finished_at = now env,
                             u_error_message = Some m, u_meta = MetaErrors [m]\<rparr>;
                   sent = st3\<lparr>script := drop 1 (script st3),
                              calls := calls st3 @ [RunUpdate runId final]\<rparr>
               in run_updates st3 = run_updates st
                \<and> (case next_reply st3 of
                      Done i \<Rightarrow> res = Inl (Error m)
                                 \<and> st' = sent\<lparr>run_updates := run_updates st @ [final]\<rparr>
                    | Failed msg \<Rightarrow> res = Inl (Error (''import_runs update failed: '' @ msg))
                                 \<and> st' = sent
                    | Rejected msg \<Rightarrow> res = Inl (Error msg) \<and> st' = sent))))"
proof -
  from assms have r: "(case run_try h env hotelFk runId (opened env hotelFk st) of
        None \<Rightarrow> None
      | Some r3 \<Rightarrow>
         (case fst r3 of
            Inr s \<Rightarrow> Some (Inr s, snd r3)
          | Inl err \<Rightarrow> Some (run_catch env runId err (snd r3)))) = Some (res, st')"
    by (simp add: run_opened)
  then obtain r3 st3 where t: "run_try h env hotelFk runId (opened env hotelFk st) = Some (r3, st3)"
    by (auto split: option.splits)
  show ?thesis
  proof (cases r3)
    case (Inr s)
    with r t have res: "res = Inr s" "st' = st3" by simp_all
    from run_try_cases [OF t] Inr obtain stats where
      "s = summary_of env stats" "run_updates st3 = run_updates st @ [success_update env stats]"
      by (auto simp: opened_run_updates)
    then have "\<exists>u. run_updates st' = run_updates st @ [u]
                        \<and> u_status u = s_status s \<and> u_finished_at u = now env"
      using res by (simp add: success_update_def summary_of_def)
    with t Inr res show ?thesis by simp
  next
    case (Inl e)
    obtain m where e: "e = Error m" by (cases e)
    from r t Inl e have res: "run_catch env runId (Error m) st3 = (res, st')" by simp
    from run_try_cases [OF t] Inl have ru: "run_updates st3 = run_updates st"
      by (auto simp: opened_run_updates)
    have "case next_reply st3 of
            Done i \<Rightarrow> res = Inl (Error m)
               \<and> st' = (after_calls st3 [RunUpdate runId (failure_update env m)])
                         \<lparr>run_updates := run_updates st @ [failure_update env m]\<rparr>
          | Failed msg \<Rightarrow> res = Inl (Error (''import_runs update failed: '' @ msg))
               \<and> st' = after_calls st3 [RunUpdate runId (failure_update env m)]
          | Rejected msg \<Rightarrow> res = Inl (Error msg)
               \<and> st' = after_calls st3 [RunUpdate runId (failure_update env m)]"
      using res [unfolded run_catch_reply] ru by (auto split: reply.splits)
    then have "let final = \<lparr>u_status = ''failed'', u_finished_at = now env,
                             u_error_message = Some m, u_meta = MetaErrors [m]\<rparr>;
                   sent = st3\<lparr>script := drop 1 (script st3),
                              calls := calls st3 @ [RunUpdate runId final]\<rparr>
               in run_updates st3 = run_updates st
                \<and> (case next_reply st3 of
                      Done i \<Rightarrow> res = Inl (Error m)
                                 \<and> st' = sent\<lparr>run_updates := run_updates st @ [final]\<rparr>
                    | Failed msg \<Rightarrow> res = Inl (Error (''import_runs update failed: '' @ msg))
                                 \<and> st' = sent
                    | Rejected msg \<Rightarrow> res = Inl (Error msg) \<and> st' = sent)"
      using ru by (simp add: Let_def failure_update_def after_calls_def split: reply.splits)
    with t Inl e show ?thesis by simp
  qed
qed

text \<open>
  The claim as worded fails: with an unknown template and a store that refuses the update of
  the run record, the run raises the error of the update (not the one caught) and the run
  record is left open, without any terminal update.
\<close>

theorem run_closes_record_counterexample:
  "run ref_host env_unknown store_down
     = Some (Inl (Error ''import_runs update failed: down''),
             \<lparr>script = [],
              calls = [HotelUpsert ''H2258'' ''H2258'', RunInsert ''h1'' ''report.xlsx'' ''nope'',
                       RunUpdate ''r1'' (failure_update env_unknown ''Unknown template: nope'')],
              run_updates = []\<rparr>)"
  by (simp add: run_defs env_unknown_def store_down_def)

text \<open>The theorem at two runs of an unknown template: against a store that accepts the
  handler's update, and against one that answers it with an error.\<close>

theorem run_closes_record_witness:
  "script store_up = Done ''h1'' # Done ''r1'' # []
   \<and> run ref_host env_unknown store_up
       = Some (Inl (Error ''Unknown template: nope''),
               \<lparr>script = [],
                calls = [HotelUpsert ''H2258'' ''H2258'', RunInsert ''h1'' ''report.xlsx'' ''nope'',
                         RunUpdate ''r1'' (failure_update env_unknown ''Unknown template: nope'')],
                run_updates = [failure_update env_unknown ''Unknown template: nope'']\<rparr>)
   \<and> run_try ref_host env_unknown ''h1'' ''r1'' (opened env_unknown ''h1'' store_up)
       = Some (Inl (Error ''Unknown template: nope''), opened env_unknown ''h1'' store_up)
   \<and> next_reply (opened env_unknown ''h1'' store_up) = Done []
   \<and> script store_down = Done ''h1'' # Done ''r1'' # [Failed ''down'']
   \<and> run_try ref_host env_unknown ''h1'' ''r1'' (opened env_unknown ''h1'' store_down)
       = Some (Inl (Error ''Unknown template: nope''), opened env_unknown ''h1'' store_down)
   \<and> next_reply (opened env_unknown ''h1'' store_down) = Failed ''down''
   \<and> map_option fst (run ref_host env_unknown store_down)
       = Some (Inl (Error ''import_runs update failed: down''))"
proof -
  have d: "\<And>st. dispatch ref_host env_unknown ''h1'' initial_stats st
       = Some (Inl (Error ''Unknown template: nope''), st)"
    by (simp add: dispatch_def env_unknown_def Let_def)
  have s: "script store_up = Done ''h1'' # Done ''r1'' # []" by (simp add: store_up_def)
  have r: "run ref_host env_unknown store_up
       = Some (Inl (Error ''Unknown template: nope''),
               \<lparr>script = [],
                calls = [HotelUpsert ''H2258'' ''H2258'', RunInsert ''h1'' ''report.xlsx'' ''nope'',
                         RunUpdate ''r1'' (failure_update env_unknown ''Unknown template: nope'')],
                run_updates = [failure_update env_unknown ''Unknown template: nope'']\<rparr>)"
    by (simp add: run_defs env_unknown_def store_up_def)
  have t: "run_try ref_host env_unknown ''h1'' ''r1'' (opened env_unknown ''h1'' store_up)
       = Some (Inl (Error ''Unknown template: nope''), opened env_unknown ''h1'' store_up)"
    by (simp add: run_try_def d then_eff_def)
  have n: "next_reply (opened env_unknown ''h1'' store_up) = Done []"
    by (simp add: next_reply_def opened_def after_calls_def store_up_def)
  have s2: "script store_down = Done ''h1'' # Done ''r1'' # [Failed ''down'']"
    by (simp add: store_down_def)
  obtain res st' where r2: "run ref_host env_unknown store_down = Some (res, st')"
    by (simp add: run_defs env_unknown_def store_down_def)
  have t2: "run_try ref_host env_unknown ''h1'' ''r1'' (opened env_unknown ''h1'' store_down)
       = Some (Inl (Error ''Unknown template: nope''), opened env_unknown ''h1'' store_down)"
    by (simp add: run_try_def d then_eff_def)
  have n2: "next_reply (opened env_unknown ''h1'' store_down) = Failed ''down''"
    by (simp add: next_reply_def opened_def after_calls_def store_down_def)
  from run_closes_record [OF s2 r2] have "res = Inl (Error ''import_runs update failed: down'')"
    by (simp add: t2 n2 Let_def)
  with run_closes_record [OF s r] show ?thesis
    using s r t n s2 r2 t2 n2 by simp
qed

lemma run_try_dispatched:
  assumes "dispatch h env hotelFk initial_stats st0 = Some (Inr stats, st1)"
  shows "run_try h env hotelFk runId st0 =
     (case next_reply st1 of
        Done i \<Rightarrow> Some (Inr (summary_of env stats),
                        (after_calls st1 [RunUpdate runId (success_update env stats)])
                          \<lparr>run_updates := run_updates st1 @ [success_update env stats]\<rparr>)
      | Failed msg \<Rightarrow> Some (Inl (Error (''import_runs update failed: '' @ msg)),
                            after_calls st1 [RunUpdate runId (success_update env stats)])
      | Rejected msg \<Rightarrow> Some (Inl (Error msg),
                              after_calls st1 [RunUpdate runId (success_update env stats)]))"
  using assms
  by (simp add: run_try_def then_eff_def updateImportRun_reply Let_def split: reply.splits)

text \<open>
  Claim C3, as amended. In every run that reaches the status computation, the orchestrator
  computes the error rate \<open>rowErrors / (rowsInserted + rowErrors)\<close> (as a double; 0 when
  both counts are 0) and sends a closing update whose status is \<open>failed\<close> when the rate
  exceeds the configured threshold and \<open>success\<close> otherwise, whatever batches failed. When
  the store accepts that update, it is the one update of the run record, and the run returns
  the summary with that status and that rate. When the store refuses it, the final status no
  longer depends on the rate: the error of the update goes to the handler, which sends an
  update of status \<open>failed\<close>; the run raises, and the run record is closed as \<open>failed\<close>
  or, when that update is refused too, not closed at all.
\<close>

theorem run_status_from_error_rate:
  assumes "script st = Done hotelFk # Done runId # rest"
    and "dispatch h env hotelFk initial_stats (opened env hotelFk st) = Some (Inr stats, st1)"
  shows "let total = rowsInserted stats + rowErrors stats;
             rate = (if total = 0 then 0 else double_quotient (rowErrors stats) total);
             status = (if exceeds rate (errorRateThreshold env) then ''failed'' else ''success'');
             closing = \<lparr>u_status = status, u_finished_at = now env,
                         u_error_message =
                           (if errors stats \<noteq> [] then Some (join (errors stats)) else None),
                         u_meta = MetaCounts (rowsInserted stats) (rowsSkipped stats)
                                    (rowsCoerced stats) (rowErrors stats) rate (errors stats)\<rparr>;
             sent = st1\<lparr>script := drop 1 (script st1),
                        calls := calls st1 @ [RunUpdate runId closing]\<rparr>;
             handled = (\<lambda>m.
               let final = \<lparr>u_status = ''failed'', u_finished_at = now env,
                             u_error_message = Some m, u_meta = MetaErrors [m]\<rparr>;
                   sent2 = sent\<lparr>script := drop 1 (script sent),
                                calls := calls sent @ [RunUpdate runId final]\<rparr>
               in case next_reply sent of
                    Done j \<Rightarrow> (Inl (Error m), sent2\<lparr>run_updates := run_updates st @ [final]\<rparr>)
                  | Failed msg2 \<Rightarrow>
                      (Inl (Error (''import_runs update failed: '' @ msg2)), sent2)
                  | Rejected msg2 \<Rightarrow> (Inl (Error msg2), sent2))
         in run_updates st1 = run_updates st
          \<and> (case next_reply st1 of
                Done i \<Rightarrow>
                  run h env st =
                    Some (Inr \<lparr>s_status = status, s_rows_inserted = rowsInserted stats,
                               s_rows_skipped = rowsSkipped stats,
                               s_rows_coerced = rowsCoerced stats,
                               s_row_errors = rowErrors stats, s_error_rate = rate\<rparr>,
                          sent\<lparr>run_updates := run_updates st @ [closing]\<rparr>)
              | Failed msg \<Rightarrow>
                  run h env st = Some (handled (''import_runs update failed: '' @ msg))
              | Rejected msg \<Rightarrow> run h env st = Some (handled msg))"
proof -
  define rate where "rate = (if rowsInserted stats + rowErrors stats = 0 then 0
      else double_quotient (rowErrors stats) (rowsInserted stats + rowErrors stats))"
  define status where
    "status = (if exceeds rate (errorRateThreshold env) then ''failed'' else ''success'')"
  define closing where "closing = \<lparr>u_status = status, u_finished_at = now env,
                         u_error_message =
                           (if errors stats \<noteq> [] then Some (join (errors stats)) else None),
                         u_meta = MetaCounts (rowsInserted stats) (rowsSkipped stats)
                                    (rowsCoerced stats) (rowErrors stats) rate (errors stats)\<rparr>"
  define sent where "sent = st1\<lparr>script := drop 1 (script st1),
                        calls := calls st1 @ [RunUpdate runId closing]\<rparr>"
  define handled :: "string \<Rightarrow> (error + summary) \<times> store" where "handled = (\<lambda>m.
               let final = \<lparr>u_status = ''failed'', u_finished_at = now env,
                             u_error_message = Some m, u_meta = MetaErrors [m]\<rparr>;
                   sent2 = sent\<lparr>script := drop 1 (script sent),
                                calls := calls sent @ [RunUpdate runId final]\<rparr>
               in case next_reply sent of
                    Done j \<Rightarrow> (Inl (Error m), sent2\<lparr>run_updates := run_updates st @ [final]\<rparr>)
                  | Failed msg2 \<Rightarrow>
                      (Inl (Error (''import_runs update failed: '' @ msg2)), sent2)
                  | Rejected msg2 \<Rightarrow> (Inl (Error msg2), sent2))"
  have ru: "run_updates st1 = run_updates st"
    using dispatch_run_updates [OF assms(2)] by (simp add: opened_run_updates)
  have er: "errorRate_of stats = rate"
    by (simp add: errorRate_of_def rate_def Let_def)
  have cl: "success_update env stats = closing"
    by (simp add: success_update_def status_of_def er closing_def status_def)
  have su: "summary_of env stats =
      \<lparr>s_status = status, s_rows_inserted = rowsInserted stats,
        s_rows_skipped = rowsSkipped stats, s_rows_coerced = rowsCoerced stats,
        s_row_errors = rowErrors stats, s_error_rate = rate\<rparr>"
    by (simp add: summary_of_def status_of_def er status_def)
  have se: "after_calls st1 [RunUpdate runId closing] = sent"
    by (simp add: after_calls_def sent_def)
  have rs: "run_updates sent = run_updates st"
    by (simp add: sent_def ru)
  have ha: "run_catch env runId (Error m) sent = handled m" for m
    by (simp add: run_catch_reply handled_def failure_update_def after_calls_def rs Let_def
        split: reply.splits)
  have r: "run h env st =
     (case run_try h env hotelFk runId (opened env hotelFk st) of
        None \<Rightarrow> None
      | Some r3 \<Rightarrow>
         (case fst r3 of
            Inr s \<Rightarrow> Some (Inr s, snd r3)
          | Inl err \<Rightarrow> Some (run_catch env runId err (snd r3))))"
    by (rule run_opened [OF assms(1)])
  have t: "run_try h env hotelFk runId (opened env hotelFk st) =
     (case next_reply st1 of
        Done i \<Rightarrow> Some (Inr (summary_of env stats), sent\<lparr>run_updates := run_updates st1 @ [closing]\<rparr>)
      | Failed msg \<Rightarrow> Some (Inl (Error (''import_runs update failed: '' @ msg)), sent)
      | Rejected msg \<Rightarrow> Some (Inl (Error msg), sent))"
    by (simp only: run_try_dispatched [OF assms(2)] cl se)
  have main: "run_updates st1 = run_updates st
          \<and> (case next_reply st1 of
                Done i \<Rightarrow>
                  run h env st =
                    Some (Inr \<lparr>s_status = status, s_rows_inserted = rowsInserted stats,
                               s_rows_skipped = rowsSkipped stats,
                               s_rows_coerced = rowsCoerced stats,
                               s_row_errors = rowErrors stats, s_error_rate = rate\<rparr>,
                          sent\<lparr>run_updates := run_updates st @ [closing]\<rparr>)
              | Failed msg \<Rightarrow>
                  run h env st = Some (handled (''import_runs update failed: '' @ msg))
              | Rejected msg \<Rightarrow> run h env st = Some (handled msg))"
  proof (cases "next_reply st1")
    case (Done i)
    then show ?thesis by (simp only: r t su ru) simp
  next
    case (Failed msg)
    then show ?thesis by (simp only: r t ha ru) (simp add: ha)
  next
    case (Rejected msg)
    then show ?thesis by (simp only: r t ha ru) (simp add: ha)
  qed
  show ?thesis
    unfolding Let_def
    using main
    unfolding handled_def sent_def closing_def status_def rate_def Let_def .
qed

lemma events_opened:
  "opened env_events ''h1'' st
     = st\<lparr>script := drop 2 (script st),
          calls := calls st @ [HotelUpsert ''H2258'' ''H2258'',
                               RunInsert ''h1'' ''events.xlsx'' ''events'']\<rparr>"
  by (simp add: opened_def after_calls_def env_events_def numeral_2_eq_2)

lemma events_dispatched:
  "dispatch ref_host env_events ''h1'' initial_stats
      \<lparr>script = Done [] # rs, calls = cs, run_updates = us\<rparr>
     = (case rs of
          [] \<Rightarrow> Some (Inr \<lparr>rowsSkipped = 1, rowsCoerced = 1, rowsInserted = 2, rowErrors = 0,
                           errors = []\<rparr>,
                      \<lparr>script = [],
                       calls = cs @ [RowsInsert ''events_calendar'' [Row_events_calendar salon],
                                     RowsInsert ''events_calendar'' [Row_events_calendar fair]],
                       run_updates = us\<rparr>)
        | Done i # rs' \<Rightarrow>
               Some (Inr \<lparr>rowsSkipped = 1, rowsCoerced = 1, rowsInserted = 2, rowErrors = 0,
                           errors = []\<rparr>,
                      \<lparr>script = rs',
                       calls = cs @ [RowsInsert ''events_calendar'' [Row_events_calendar salon],
                                     RowsInsert ''events_calendar'' [Row_events_calendar fair]],
                       run_updates = us\<rparr>)
        | Failed msg # rs' \<Rightarrow>
               Some (Inr \<lparr>rowsSkipped = 1, rowsCoerced = 1, rowsInserted = 1, rowErrors = 1,
                           errors = [''events_calendar: '' @ msg]\<rparr>,
                      \<lparr>script = rs',
                       calls = cs @ [RowsInsert ''events_calendar'' [Row_events_calendar salon],
                                     RowsInsert ''events_calendar'' [Row_events_calendar fair]],
                       run_updates = us\<rparr>)
        | Rejected msg # rs' \<Rightarrow>
               Some (Inl (Error msg),
                      \<lparr>script = rs',
                       calls = cs @ [RowsInsert ''events_calendar'' [Row_events_calendar salon],
                                     RowsInsert ''events_calendar'' [Row_events_calendar fair]],
                       run_updates = us\<rparr>))"
  by (simp add: dispatch_def env_events_def events_book_normalized [unfolded events_book_def]
      events_book_def batchInsert_def batchInsert_from.simps then_eff_def store_call_def
      initial_stats_def add_norm_stats_def Let_def split: list.splits reply.splits)

text \<open>
  The theorem at an events import of two rows in batches of one, the second batch failing and
  the closing update accepted: the rate is 1/2, the threshold 0.625, the status \<open>success\<close>.
\<close>

theorem run_status_from_error_rate_witness:
  "script store_events_partial = Done ''h1'' # Done ''r1'' # [Done [], Failed ''boom'']
   \<and> dispatch ref_host env_events ''h1'' initial_stats (opened env_events ''h1'' store_events_partial)
       = Some (Inr \<lparr>rowsSkipped = 1, rowsCoerced = 1, rowsInserted = 1, rowErrors = 1,
                    errors = [''events_calendar: boom'']\<rparr>,
               \<lparr>script = [],
                calls = [HotelUpsert ''H2258'' ''H2258'',
                         RunInsert ''h1'' ''events.xlsx'' ''events'',
                         RowsInsert ''events_calendar'' [Row_events_calendar salon],
                         RowsInsert ''events_calendar'' [Row_events_calendar fair]],
                run_updates = []\<rparr>)
   \<and> map_option fst (run ref_host env_events store_events_partial)
       = Some (Inr \<lparr>s_status = ''success'', s_rows_inserted = 1, s_rows_skipped = 1,
                    s_rows_coerced = 1, s_row_errors = 1, s_error_rate = 1 / 2\<rparr>)
   \<and> map_option (\<lambda>r. map u_status (run_updates (snd r))) (run ref_host env_events store_events_partial)
       = Some [''success'']"
proof -
  have s: "script store_events_partial = Done ''h1'' # Done ''r1'' # [Done [], Failed ''boom'']"
    by (simp add: store_events_partial_def)
  have d: "dispatch ref_host env_events ''h1'' initial_stats
             (opened env_events ''h1'' store_events_partial)
       = Some (Inr \<lparr>rowsSkipped = 1, rowsCoerced = 1, rowsInserted = 1, rowErrors = 1,
                    errors = [''events_calendar: boom'']\<rparr>,
               \<lparr>script = [],
                calls = [HotelUpsert ''H2258'' ''H2258'',
                         RunInsert ''h1'' ''events.xlsx'' ''events'',
                         RowsInsert ''events_calendar'' [Row_events_calendar salon],
                         RowsInsert ''events_calendar'' [Row_events_calendar fair]],
                run_updates = []\<rparr>)"
    by (simp add: events_opened store_events_partial_def events_dispatched)
  have q0: "double_quotient 1 2 = 1 / 2"
    by (simp add: double_defs)
  have q: "double_quotient (Suc 0) (Suc (Suc 0)) = 1 / 2"
    using q0 by (simp add: numeral_2_eq_2)
  have th: "errorRateThreshold env_events = Fin (5 / 8)"
    by (simp add: env_events_def)
  from run_status_from_error_rate [OF s d] show ?thesis
    using s d by (simp add: Let_def next_reply_def q th store_events_partial_def)
qed

text \<open>
  The claim as worded fails when the store refuses the closing update: both rows are
  inserted, the rate is 0 and does not exceed the threshold, and the run ends with the run
  record closed as \<open>failed\<close>.
\<close>

theorem run_status_from_error_rate_counterexample:
  "dispatch ref_host env_events ''h1'' initial_stats (opened env_events ''h1'' store_events_refused)
       = Some (Inr \<lparr>rowsSkipped = 1, rowsCoerced = 1, rowsInserted = 2, rowErrors = 0,
                    errors = []\<rparr>,
               \<lparr>script = [Failed ''timeout''],
                calls = [HotelUpsert ''H2258'' ''H2258'',
                         RunInsert ''h1'' ''events.xlsx'' ''events'',
                         RowsInsert ''events_calendar'' [Row_events_calendar salon],
                         RowsInsert ''events_calendar'' [Row_events_calendar fair]],
                run_updates = []\<rparr>)
   \<and> errorRate_of \<lparr>rowsSkipped = 1, rowsCoerced = 1, rowsInserted = 2, rowErrors = 0,
                    errors = []\<rparr> = 0
   \<and> \<not> exceeds 0 (errorRateThreshold env_events)
   \<and> map_option fst (run ref_host env_events store_events_refused)
       = Some (Inl (Error ''import_runs update failed: timeout''))
   \<and> map_option (\<lambda>r. map u_status (run_updates (snd r))) (run ref_host env_events store_events_refused)
       = Some [''failed'']"
proof -
  have s: "script store_events_refused
             = Done ''h1'' # Done ''r1'' # [Done [], Done [], Failed ''timeout'']"
    by (simp add: store_events_refused_def)
  have d: "dispatch ref_host env_events ''h1'' initial_stats
             (opened env_events ''h1'' store_events_refused)
       = Some (Inr \<lparr>rowsSkipped = 1, rowsCoerced = 1, rowsInserted = 2, rowErrors = 0,
                    errors = []\<rparr>,
               \<lparr>script = [Failed ''timeout''],
                calls = [HotelUpsert ''H2258'' ''H2258'',
                         RunInsert ''h1'' ''events.xlsx'' ''events'',
                         RowsInsert ''events_calendar'' [Row_events_calendar salon],
                         RowsInsert ''events_calendar'' [Row_events_calendar fair]],
                run_updates = []\<rparr>)"
    by (simp add: events_opened store_events_refused_def events_dispatched)
  have r: "run ref_host env_events store_events_refused =
      Some (run_catch env_events ''r1'' (Error ''import_runs update failed: timeout'')
         (after_calls \<lparr>script = [Failed ''timeout''],
                calls = [HotelUpsert ''H2258'' ''H2258'',
                         RunInsert ''h1'' ''events.xlsx'' ''events'',
                         RowsInsert ''events_calendar'' [Row_events_calendar salon],
                         RowsInsert ''events_calendar'' [Row_events_calendar fair]],
                run_updates = []\<rparr>
            [RunUpdate ''r1'' (success_update env_events
               \<lparr>rowsSkipped = 1, rowsCoerced = 1, rowsInserted = 2, rowErrors = 0,
                    errors = []\<rparr>)]))"
    by (simp add: run_opened [OF s] run_try_dispatched [OF d] next_reply_def)
  have th: "errorRateThreshold env_events = Fin (5 / 8)"
    by (simp add: env_events_def)
  show ?thesis
    unfolding r run_catch_reply
    by (simp add: d th errorRate_of_def double_quotient_def next_reply_def after_calls_def
        failure_update_def)
qed

end
